theory Spec2Isabelle
  imports Main
begin

section \<open>Data model\<close>

text \<open>
  A thrown JavaScript \<open>Error\<close> is its message. Every function that can throw returns
  \<open>error + 'a\<close>, with \<open>Inl\<close> for the thrown error.
\<close>

datatype error = Error (error_message: string)

text \<open>
  JavaScript values that occur as properties of the objects built by the signing
  functions. A \<open>Buffer\<close> is its list of bytes.
\<close>

datatype jsval =
    JUndefined
  | JString string
  | JNumber nat
  | JBoolean bool
  | JArray "nat list"
  | JBuffer "nat list"

text \<open>
  A plain JavaScript object is the list of its own properties in insertion order.
  Assigning a property replaces the value in place when the key exists and appends
  it otherwise; \<open>Object.assign\<close> copies the properties of each source in turn.
\<close>

type_synonym jsobject = "(string \<times> jsval) list"

fun setProperty :: "jsobject \<Rightarrow> string \<Rightarrow> jsval \<Rightarrow> jsobject" where
  "setProperty [] k x = [(k, x)]"
| "setProperty ((k', x') # ps) k x =
     (if k' = k then (k, x) # ps else (k', x') # setProperty ps k x)"

fun assignFrom :: "jsobject \<Rightarrow> jsobject \<Rightarrow> jsobject" where
  "assignFrom target [] = target"
| "assignFrom target ((k, x) # src) = assignFrom (setProperty target k x) src"

fun Object_assign :: "jsobject \<Rightarrow> jsobject list \<Rightarrow> jsobject" where
  "Object_assign target [] = target"
| "Object_assign target (src # srcs) = Object_assign (assignFrom target src) srcs"

definition getProperty :: "jsobject \<Rightarrow> string \<Rightarrow> jsval option" where
  "getProperty obj k = map_of obj k"


text \<open>
  \<open>TransactionObjectTypeWithTo\<close> of purser-core/types: \<open>chainId\<close> and \<open>nonce\<close> are
  numbers, the other fields strings, \<open>to\<close> is \<open>string | undefined\<close>.
  \<open>TransactionObjectTypeWithDerivationPath\<close> adds the derivation path.
\<close>

record TransactionObjectTypeWithTo =
  chainId :: nat
  gasPrice :: string
  gasLimit :: string
  nonce :: nat
  "value" :: string
  inputData :: string
  to :: "string option"

record TransactionObjectTypeWithDerivationPath = TransactionObjectTypeWithTo +
  derivationPath :: string

record MessageVerificationObjectType =
  message :: string
  signature :: string

text \<open>The arguments of the two \<open>verifyMessage\<close> functions.\<close>

record TrezorVerifyObject = MessageVerificationObjectType +
  address :: string

record LedgerVerifyObject = MessageVerificationObjectType +
  publicKey :: string

text \<open>The argument of \<open>signMessage\<close>; \<open>message\<close> and \<open>messageData\<close> may be undefined.\<close>

record SignMessageObject =
  signPath :: string
  signMessageText :: "string option"
  signMessageData :: "string option"

text \<open>
  What a caller can pass where an object is expected: \<open>null\<close>, \<open>undefined\<close>, a
  primitive value (\<open>typeof\<close> is not \<open>'object'\<close>), or an object.
\<close>

datatype 'a jsarg =
    ArgNull
  | ArgUndefined
  | ArgNumber int
  | ArgString string
  | ArgBoolean bool
  | ArgObject 'a

fun typeof :: "'a jsarg \<Rightarrow> string" where
  "typeof ArgNull = ''object''"
| "typeof ArgUndefined = ''undefined''"
| "typeof (ArgNumber _) = ''number''"
| "typeof (ArgString _) = ''string''"
| "typeof (ArgBoolean _) = ''boolean''"
| "typeof (ArgObject _) = ''object''"

text \<open>An \<open>EthereumTx\<close> instance: the transaction data it holds and its chain options.\<close>

record EthereumTx =
  txData :: jsobject
  txOpts :: jsobject

text \<open>The object the Trezor service answers with; each call reads the fields it needs.\<close>

record TrezorResponse =
  trezor_r :: string
  trezor_s :: string
  trezor_v :: nat
  trezor_signature :: "string option"
  trezor_success :: bool

text \<open>The Ledger return types of purser-ledger/types and the device handle.\<close>

record TransactionSignatureReturnType =
  tx_r :: string
  tx_s :: string
  tx_v :: string

record MessageSignatureReturnType =
  msg_r :: string
  msg_s :: string
  msg_v :: nat

record LedgerInstanceType =
  signTransaction :: "string \<Rightarrow> string \<Rightarrow> error + TransactionSignatureReturnType"
  signPersonalMessage :: "string \<Rightarrow> string \<Rightarrow> error + MessageSignatureReturnType"

record staticMethodsMessages =
  userSignTxCancel :: string
  userSignTxGenericError :: string
  signMessageArgumentMissing :: string

section \<open>Collaborators outside the signing modules\<close>

text \<open>
  The signing modules import their validators, normalizers, constants, the device
  transports and the libraries \<open>ethereumjs-tx\<close>, \<open>bip32-path\<close> and \<open>Buffer\<close>. They are
  the fields of one environment record, so every theorem below holds for whatever
  these collaborators compute. A validator returns \<open>Inl\<close> when it throws. The
  optional \<open>prefix\<close> parameter of \<open>hexSequenceNormalizer\<close> and \<open>addressNormalizer\<close>
  is \<open>None\<close> where the call leaves it out.
  \<open>SIGNATURE_R\<close> and \<open>SIGNATURE_S\<close> stand for \<open>String(SIGNATURE.R)\<close> and
  \<open>String(SIGNATURE.S)\<close>; \<open>payloadListener\<close> takes the \<open>payload\<close> property of its
  argument; \<open>fromString_toPathArray\<close> is \<open>fromString(p, true).toPathArray()\<close>.

  The normalizers and the library calls (\<open>new EthereumTx\<close>, \<open>serialize\<close>,
  \<open>Buffer.from\<close>, \<open>toString\<close>, \<open>fromString\<close>) are total functions here: the
  failures that the signing functions deal with are those of the validators, of the
  device transports and of \<open>handleLedgerConnectionError\<close>. Calls of \<open>warning\<close> only
  log and are left out.
\<close>

record env =
  addressValidator :: "string \<Rightarrow> error + unit"
  derivationPathValidator :: "string \<Rightarrow> error + unit"
  hexSequenceValidator :: "string \<Rightarrow> error + unit"
  transactionObjectValidator ::
    "TransactionObjectTypeWithTo \<Rightarrow> error + TransactionObjectTypeWithTo"
  messageVerificationObjectValidator ::
    "MessageVerificationObjectType \<Rightarrow> error + MessageVerificationObjectType"
  messageOrDataValidator :: "string option \<Rightarrow> string option \<Rightarrow> error + string"
  derivationPathNormalizer :: "string \<Rightarrow> string"
  multipleOfTwoHexValueNormalizer :: "string \<Rightarrow> string"
  addressNormalizer :: "string \<Rightarrow> bool option \<Rightarrow> string"
  hexSequenceNormalizer :: "string \<Rightarrow> bool option \<Rightarrow> string"
  objectToErrorString :: "jsobject \<Rightarrow> string"
  getChainDefinition :: "nat \<Rightarrow> jsobject"
  verifyMessageSignature :: "string \<Rightarrow> string \<Rightarrow> string \<Rightarrow> error + bool"
  HEX_HASH_TYPE :: string
  SIGNATURE_R :: string
  SIGNATURE_S :: string
  fromString_toPathArray :: "string \<Rightarrow> nat list"
  serialize :: "EthereumTx \<Rightarrow> nat list"
  Buffer_from :: "string \<Rightarrow> string \<Rightarrow> nat list"
  Buffer_toString :: "nat list \<Rightarrow> string \<Rightarrow> string"
  payloadListener :: "jsobject \<Rightarrow> error + TrezorResponse"
  CANCEL_TX_SIGN :: string
  PAYLOAD_SIGNTX :: jsobject
  PAYLOAD_SIGNMSG :: jsobject
  PAYLOAD_VERIFYMSG :: jsobject
  trezor_messages :: staticMethodsMessages
  ledgerConnection :: "error + LedgerInstanceType"
  handleLedgerConnectionError :: "error \<Rightarrow> string \<Rightarrow> error + unit"
  ledger_messages :: staticMethodsMessages

section \<open>JavaScript built-ins used by the signing modules\<close>

text \<open>\<open>Number.prototype.toString(16)\<close> on a non-negative integer.\<close>

fun toString16 :: "nat \<Rightarrow> string" where
  "toString16 n =
     (if n < 16 then [''0123456789abcdef'' ! n]
      else toString16 (n div 16) @ [''0123456789abcdef'' ! (n mod 16)])"

text \<open>
  \<open>bigNumber(x).toString(16)\<close> for a number \<open>x\<close>: the big number prints the same
  hexadecimal digits.
\<close>

definition bigNumber_toString16 :: "nat \<Rightarrow> string" where
  "bigNumber_toString16 n = toString16 n"

text \<open>Truthiness of a \<open>string | undefined\<close>: undefined and the empty string are falsy.\<close>

fun truthy :: "string option \<Rightarrow> bool" where
  "truthy None = False"
| "truthy (Some a) = (a \<noteq> [])"

text \<open>A \<open>string | undefined\<close> inside a template literal.\<close>

fun templateString :: "string option \<Rightarrow> string" where
  "templateString None = ''undefined''"
| "templateString (Some a) = a"

declare toString16.simps [simp del]

section \<open>Shared between the Trezor and Ledger modules\<close>

text \<open>
  Both \<open>signTransaction\<close> functions start by copying the seven transaction fields of
  their argument into \<open>transactionObject\<close>.
\<close>

definition transactionObject ::
  "TransactionObjectTypeWithDerivationPath \<Rightarrow> TransactionObjectTypeWithTo" where
  "transactionObject obj =
     \<lparr>chainId = chainId obj, gasPrice = gasPrice obj, gasLimit = gasLimit obj,
      nonce = nonce obj, value = value obj, inputData = inputData obj, to = to obj\<rparr>"

text \<open>The own properties of \<open>transactionObject\<close>, as \<open>objectToErrorString\<close> reads them.\<close>

definition transactionObject_properties :: "TransactionObjectTypeWithTo \<Rightarrow> jsobject" where
  "transactionObject_properties t =
     [(''chainId'', JNumber (chainId t)),
      (''gasPrice'', JString (gasPrice t)),
      (''gasLimit'', JString (gasLimit t)),
      (''nonce'', JNumber (nonce t)),
      (''value'', JString (value t)),
      (''inputData'', JString (inputData t)),
      (''to'', (case to t of None \<Rightarrow> JUndefined | Some a \<Rightarrow> JString a))]"

text \<open>\<open>unsignedTransaction.k = x\<close> on an \<open>EthereumTx\<close>.\<close>

definition setField :: "EthereumTx \<Rightarrow> string \<Rightarrow> jsval \<Rightarrow> EthereumTx" where
  "setField tx k x = tx\<lparr>txData := setProperty (txData tx) k x\<rparr>"

section \<open>purser-trezor/staticMethods.ts\<close>

text \<open>The \<open>EthereumTx\<close> built before signing (lines 84 to 131).\<close>

definition trezor_unsignedTransaction :: "env \<Rightarrow> TransactionObjectTypeWithTo \<Rightarrow> EthereumTx" where
  "trezor_unsignedTransaction e t =
     \<lparr>txData =
        [(''gasPrice'', JString (hexSequenceNormalizer e
            (multipleOfTwoHexValueNormalizer e (gasPrice t)) None)),
         (''gasLimit'', JString (hexSequenceNormalizer e
            (multipleOfTwoHexValueNormalizer e (gasPrice t)) None)),
         (''nonce'', JString (hexSequenceNormalizer e
            (multipleOfTwoHexValueNormalizer e (toString16 (nonce t))) None)),
         (''value'', JString (hexSequenceNormalizer e
            (multipleOfTwoHexValueNormalizer e (value t)) None)),
         (''data'', JString (hexSequenceNormalizer e (inputData t) None)),
         (''r'', JString (hexSequenceNormalizer e
            (multipleOfTwoHexValueNormalizer e (SIGNATURE_R e)) None)),
         (''s'', JString (hexSequenceNormalizer e
            (multipleOfTwoHexValueNormalizer e (SIGNATURE_S e)) None)),
         (''v'', JString (hexSequenceNormalizer e
            (multipleOfTwoHexValueNormalizer e (toString16 (chainId t))) None))],
      txOpts = getChainDefinition e (chainId t)\<rparr>"

text \<open>The payload sent to the Trezor service (lines 135 to 163).\<close>

definition trezor_modifiedPayloadObject ::
  "env \<Rightarrow> TransactionObjectTypeWithTo \<Rightarrow> string \<Rightarrow> jsobject" where
  "trezor_modifiedPayloadObject e t path =
     Object_assign []
       [PAYLOAD_SIGNTX e,
        [(''address_n'', JArray (fromString_toPathArray e (derivationPathNormalizer e path))),
         (''gas_price'', JString (multipleOfTwoHexValueNormalizer e (gasPrice t))),
         (''gas_limit'', JString (multipleOfTwoHexValueNormalizer e (gasLimit t))),
         (''chain_id'', JNumber (chainId t)),
         (''nonce'', JString (multipleOfTwoHexValueNormalizer e (toString16 (nonce t)))),
         (''value'', JString (multipleOfTwoHexValueNormalizer e (value t))),
         (''data'', JString (hexSequenceNormalizer e (inputData t) (Some False)))],
        (case to t of
           None \<Rightarrow> []
         | Some a \<Rightarrow>
             if truthy (Some a)
             then [(''to'', JString (addressNormalizer e a (Some False)))]
             else [])]"

text \<open>The signature values written back into the transaction (lines 192 to 196).\<close>

definition trezor_signedTransaction :: "env \<Rightarrow> EthereumTx \<Rightarrow> TrezorResponse \<Rightarrow> EthereumTx" where
  "trezor_signedTransaction e unsignedTransaction response =
     (let tx1 = setField unsignedTransaction ''r''
            (JBuffer (Buffer_from e (hexSequenceNormalizer e (trezor_r response) None)
               (HEX_HASH_TYPE e)));
          tx2 = setField tx1 ''s''
            (JBuffer (Buffer_from e (hexSequenceNormalizer e (trezor_s response) None)
               (HEX_HASH_TYPE e)));
          tx3 = setField tx2 ''v''
            (JBuffer (Buffer_from e
               (hexSequenceNormalizer e (bigNumber_toString16 (trezor_v response)) None)
               (HEX_HASH_TYPE e)))
      in tx3)"

definition trezor_signTransaction ::
  "env \<Rightarrow> TransactionObjectTypeWithDerivationPath \<Rightarrow> error + string" where
  "trezor_signTransaction e obj =
     (case transactionObjectValidator e (transactionObject obj) of
        Inl thrown \<Rightarrow> Inl thrown
      | Inr t \<Rightarrow>
          (case derivationPathValidator e (derivationPath obj) of
             Inl thrown \<Rightarrow> Inl thrown
           | Inr _ \<Rightarrow>
               (let unsignedTransaction = trezor_unsignedTransaction e t;
                    modifiedPayloadObject =
                      trezor_modifiedPayloadObject e t (derivationPath obj)
                in case payloadListener e modifiedPayloadObject of
                     Inr response \<Rightarrow>
                       Inr (hexSequenceNormalizer e
                         (Buffer_toString e
                            (serialize e
                               (trezor_signedTransaction e unsignedTransaction response))
                            (HEX_HASH_TYPE e))
                         None)
                   | Inl caughtError \<Rightarrow>
                       if error_message caughtError = CANCEL_TX_SIGN e
                       then Inl (Error (userSignTxCancel (trezor_messages e)))
                       else Inl (Error
                         (userSignTxGenericError (trezor_messages e) @ '': '' @
                          objectToErrorString e modifiedPayloadObject @ '' '' @
                          error_message caughtError)))))"

text \<open>
  \<open>signMessage\<close> (lines 233 to 287). \<open>Buffer.from(toSign)\<close> has no encoding argument,
  which is Node's default \<open>'utf8'\<close>; a missing \<open>signature\<close> in the answer defaults to
  the empty string.
\<close>

definition trezor_signMessagePayload :: "env \<Rightarrow> SignMessageObject \<Rightarrow> string \<Rightarrow> jsobject" where
  "trezor_signMessagePayload e obj toSign =
     Object_assign []
       [PAYLOAD_SIGNMSG e,
        [(''path'', JArray (fromString_toPathArray e
            (derivationPathNormalizer e (signPath obj)))),
         (''message'', JString (Buffer_toString e
            (Buffer_from e toSign ''utf8'') (HEX_HASH_TYPE e)))]]"

definition trezor_signMessage :: "env \<Rightarrow> SignMessageObject jsarg \<Rightarrow> error + string" where
  "trezor_signMessage e arg =
     (case arg of
        ArgNull \<Rightarrow> Inl (Error (signMessageArgumentMissing (trezor_messages e)))
      | ArgUndefined \<Rightarrow> Inl (Error (signMessageArgumentMissing (trezor_messages e)))
      | ArgNumber _ \<Rightarrow> Inl (Error (signMessageArgumentMissing (trezor_messages e)))
      | ArgString _ \<Rightarrow> Inl (Error (signMessageArgumentMissing (trezor_messages e)))
      | ArgBoolean _ \<Rightarrow> Inl (Error (signMessageArgumentMissing (trezor_messages e)))
      | ArgObject obj \<Rightarrow>
          (case derivationPathValidator e (signPath obj) of
             Inl thrown \<Rightarrow> Inl thrown
           | Inr _ \<Rightarrow>
               (case messageOrDataValidator e (signMessageText obj) (signMessageData obj) of
                  Inl thrown \<Rightarrow> Inl thrown
                | Inr toSign \<Rightarrow>
                    (case payloadListener e (trezor_signMessagePayload e obj toSign) of
                       Inr response \<Rightarrow>
                         Inr (hexSequenceNormalizer e
                           (case trezor_signature response of
                              None \<Rightarrow> [] | Some signedMessage \<Rightarrow> signedMessage)
                           None)
                     | Inl caughtError \<Rightarrow>
                         if error_message caughtError = CANCEL_TX_SIGN e
                         then Inl (Error (userSignTxCancel (trezor_messages e)))
                         else Inl (Error
                           (userSignTxGenericError (trezor_messages e) @ '': message: ('' @
                            templateString (signMessageText obj) @ '') '' @
                            error_message caughtError))))))"

text \<open>\<open>verifyMessage\<close> (lines 302 to 344): the two validators run before the \<open>try\<close>.\<close>

definition trezor_verifyMessagePayload ::
  "env \<Rightarrow> TrezorVerifyObject \<Rightarrow> MessageVerificationObjectType \<Rightarrow> jsobject" where
  "trezor_verifyMessagePayload e obj validated =
     Object_assign []
       [PAYLOAD_VERIFYMSG e,
        [(''address'', JString (addressNormalizer e (address obj) (Some False))),
         (''message'', JString (message validated)),
         (''signature'', JString
            (hexSequenceNormalizer e (signature validated) (Some False)))]]"

definition trezor_verifyMessage :: "env \<Rightarrow> TrezorVerifyObject \<Rightarrow> error + bool" where
  "trezor_verifyMessage e obj =
     (case addressValidator e (address obj) of
        Inl thrown \<Rightarrow> Inl thrown
      | Inr _ \<Rightarrow>
          (case messageVerificationObjectValidator e
                  \<lparr>message = message obj, signature = signature obj\<rparr> of
             Inl thrown \<Rightarrow> Inl thrown
           | Inr validated \<Rightarrow>
               (case payloadListener e (trezor_verifyMessagePayload e obj validated) of
                  Inr response \<Rightarrow> Inr (trezor_success response)
                | Inl caughtError \<Rightarrow> Inr False)))"

section \<open>purser-ledger/staticMethods.ts\<close>

text \<open>The \<open>EthereumTx\<close> built before signing (lines 86 to 134).\<close>

definition ledger_unsignedTransaction :: "env \<Rightarrow> TransactionObjectTypeWithTo \<Rightarrow> EthereumTx" where
  "ledger_unsignedTransaction e t =
     \<lparr>txData =
        Object_assign []
          [[(''gasPrice'', JString (hexSequenceNormalizer e
               (multipleOfTwoHexValueNormalizer e (gasPrice t)) None)),
            (''gasLimit'', JString (hexSequenceNormalizer e
               (multipleOfTwoHexValueNormalizer e (gasLimit t)) None)),
            (''nonce'', JString (hexSequenceNormalizer e
               (multipleOfTwoHexValueNormalizer e (toString16 (nonce t))) None)),
            (''value'', JString (hexSequenceNormalizer e
               (multipleOfTwoHexValueNormalizer e (value t)) None)),
            (''data'', JString (hexSequenceNormalizer e (inputData t) None)),
            (''r'', JString (hexSequenceNormalizer e
               (multipleOfTwoHexValueNormalizer e (SIGNATURE_R e)) None)),
            (''s'', JString (hexSequenceNormalizer e
               (multipleOfTwoHexValueNormalizer e (SIGNATURE_S e)) None)),
            (''v'', JString (hexSequenceNormalizer e
               (multipleOfTwoHexValueNormalizer e (toString16 (chainId t))) None))],
           (case to t of
              None \<Rightarrow> []
            | Some a \<Rightarrow>
                if truthy (Some a) then [(''to'', JString (addressNormalizer e a None))] else [])],
      txOpts = getChainDefinition e (chainId t)\<rparr>"

text \<open>The signature values written back into the transaction (lines 155 to 157).\<close>

definition ledger_signedTransaction ::
  "env \<Rightarrow> EthereumTx \<Rightarrow> TransactionSignatureReturnType \<Rightarrow> EthereumTx" where
  "ledger_signedTransaction e unsignedTransaction response =
     (let tx1 = setField unsignedTransaction ''r''
            (JBuffer (Buffer_from e (hexSequenceNormalizer e (tx_r response) None)
               (HEX_HASH_TYPE e)));
          tx2 = setField tx1 ''s''
            (JBuffer (Buffer_from e (hexSequenceNormalizer e (tx_s response) None)
               (HEX_HASH_TYPE e)));
          tx3 = setField tx2 ''v''
            (JBuffer (Buffer_from e (hexSequenceNormalizer e (tx_v response) None)
               (HEX_HASH_TYPE e)))
      in tx3)"

text \<open>The body of the \<open>try\<close> block of \<open>signTransaction\<close> (lines 70 to 164).\<close>

definition ledger_signTransaction_try ::
  "env \<Rightarrow> TransactionObjectTypeWithDerivationPath \<Rightarrow> TransactionObjectTypeWithTo \<Rightarrow>
   error + string" where
  "ledger_signTransaction_try e obj t =
     (case ledgerConnection e of
        Inl thrown \<Rightarrow> Inl thrown
      | Inr ledger \<Rightarrow>
          (case derivationPathValidator e (derivationPath obj) of
             Inl thrown \<Rightarrow> Inl thrown
           | Inr _ \<Rightarrow>
               (let unsignedTransaction = ledger_unsignedTransaction e t
                in case signTransaction ledger
                          (derivationPathNormalizer e (derivationPath obj))
                          (Buffer_toString e (serialize e unsignedTransaction)
                             (HEX_HASH_TYPE e)) of
                     Inl thrown \<Rightarrow> Inl thrown
                   | Inr response \<Rightarrow>
                       Inr (hexSequenceNormalizer e
                         (Buffer_toString e
                            (serialize e
                               (ledger_signedTransaction e unsignedTransaction response))
                            (HEX_HASH_TYPE e))
                         None))))"

text \<open>
  \<open>signTransaction\<close> (lines 47 to 173). The result is \<open>None\<close> when
  \<open>handleLedgerConnectionError\<close> returns instead of throwing.
\<close>

definition ledger_signTransaction ::
  "env \<Rightarrow> TransactionObjectTypeWithDerivationPath \<Rightarrow> error + string option" where
  "ledger_signTransaction e obj =
     (case transactionObjectValidator e (transactionObject obj) of
        Inl thrown \<Rightarrow> Inl thrown
      | Inr t \<Rightarrow>
          (case ledger_signTransaction_try e obj t of
             Inr signed \<Rightarrow> Inr (Some signed)
           | Inl caughtError \<Rightarrow>
               (case handleLedgerConnectionError e caughtError
                       (userSignTxGenericError (ledger_messages e) @ '': '' @
                        objectToErrorString e
                          (transactionObject_properties (transactionObject obj)) @ '' '' @
                        error_message caughtError) of
                  Inl thrown \<Rightarrow> Inl thrown
                | Inr _ \<Rightarrow> Inr None)))"

text \<open>
  The body of the \<open>try\<close> block of \<open>signMessage\<close> (lines 204 to 237): the signature is
  the concatenation of \<open>r\<close>, \<open>s\<close> and \<open>v.toString(16)\<close>.
\<close>

definition ledger_signMessage_try :: "env \<Rightarrow> SignMessageObject \<Rightarrow> string \<Rightarrow> error + string" where
  "ledger_signMessage_try e obj toSign =
     (case ledgerConnection e of
        Inl thrown \<Rightarrow> Inl thrown
      | Inr ledger \<Rightarrow>
          (case signPersonalMessage ledger
                  (derivationPathNormalizer e (signPath obj))
                  (Buffer_toString e (Buffer_from e toSign ''utf8'') (HEX_HASH_TYPE e)) of
             Inl thrown \<Rightarrow> Inl thrown
           | Inr response \<Rightarrow>
               Inr (hexSequenceNormalizer e
                 (msg_r response @ msg_s response @ toString16 (msg_v response)) None)))"

text \<open>\<open>signMessage\<close> (lines 187 to 246); \<open>toSign.toString()\<close> of a string is the string.\<close>

definition ledger_signMessage ::
  "env \<Rightarrow> SignMessageObject jsarg \<Rightarrow> error + string option" where
  "ledger_signMessage e arg =
     (case arg of
        ArgNull \<Rightarrow> Inl (Error (signMessageArgumentMissing (ledger_messages e)))
      | ArgUndefined \<Rightarrow> Inl (Error (signMessageArgumentMissing (ledger_messages e)))
      | ArgNumber _ \<Rightarrow> Inl (Error (signMessageArgumentMissing (ledger_messages e)))
      | ArgString _ \<Rightarrow> Inl (Error (signMessageArgumentMissing (ledger_messages e)))
      | ArgBoolean _ \<Rightarrow> Inl (Error (signMessageArgumentMissing (ledger_messages e)))
      | ArgObject obj \<Rightarrow>
          (case derivationPathValidator e (signPath obj) of
             Inl thrown \<Rightarrow> Inl thrown
           | Inr _ \<Rightarrow>
               (case messageOrDataValidator e (signMessageText obj) (signMessageData obj) of
                  Inl thrown \<Rightarrow> Inl thrown
                | Inr toSign \<Rightarrow>
                    (case ledger_signMessage_try e obj toSign of
                       Inr signed \<Rightarrow> Inr (Some signed)
                     | Inl caughtError \<Rightarrow>
                         (case handleLedgerConnectionError e caughtError
                                 (userSignTxGenericError (ledger_messages e) @
                                  '': message: ('' @ toSign @ '') '' @
                                  error_message caughtError) of
                            Inl thrown \<Rightarrow> Inl thrown
                          | Inr _ \<Rightarrow> Inr None)))))"

text \<open>\<open>verifyMessage\<close> (lines 261 to 291): no \<open>try\<close> block.\<close>

definition ledger_verifyMessage :: "env \<Rightarrow> LedgerVerifyObject \<Rightarrow> error + bool" where
  "ledger_verifyMessage e obj =
     (case hexSequenceValidator e (publicKey obj) of
        Inl thrown \<Rightarrow> Inl thrown
      | Inr _ \<Rightarrow>
          (case messageVerificationObjectValidator e
                  \<lparr>message = message obj, signature = signature obj\<rparr> of
             Inl thrown \<Rightarrow> Inl thrown
           | Inr validated \<Rightarrow>
               verifyMessageSignature e
                 (hexSequenceNormalizer e (publicKey obj) None)
                 (message validated)
                 (hexSequenceNormalizer e (signature validated) None)))"

section \<open>The earlier Ledger signTransaction (src/unnamed/part_000, lines 107 to 254)\<close>

text \<open>
  The earlier variant calls \<open>toString(16)\<close> on \<open>gasPrice\<close>, \<open>gasLimit\<close> and \<open>value\<close>.
  On the string fields of \<open>TransactionObjectTypeWithTo\<close> that is
  \<open>String.prototype.toString\<close>, which returns the string and ignores its argument.
\<close>

definition String_toString :: "string \<Rightarrow> string" where
  "String_toString a = a"

definition earlier_unsignedTransaction :: "env \<Rightarrow> TransactionObjectTypeWithTo \<Rightarrow> EthereumTx" where
  "earlier_unsignedTransaction e t =
     \<lparr>txData =
        Object_assign []
          [[(''gasPrice'', JString (hexSequenceNormalizer e
               (multipleOfTwoHexValueNormalizer e (String_toString (gasPrice t))) None)),
            (''gasLimit'', JString (hexSequenceNormalizer e
               (multipleOfTwoHexValueNormalizer e (String_toString (gasLimit t))) None)),
            (''nonce'', JString (hexSequenceNormalizer e
               (multipleOfTwoHexValueNormalizer e (toString16 (nonce t))) None)),
            (''value'', JString (hexSequenceNormalizer e
               (multipleOfTwoHexValueNormalizer e (String_toString (value t))) None)),
            (''data'', JString (hexSequenceNormalizer e (inputData t) None)),
            (''r'', JString (hexSequenceNormalizer e
               (multipleOfTwoHexValueNormalizer e (SIGNATURE_R e)) None)),
            (''s'', JString (hexSequenceNormalizer e
               (multipleOfTwoHexValueNormalizer e (SIGNATURE_S e)) None)),
            (''v'', JString (hexSequenceNormalizer e
               (multipleOfTwoHexValueNormalizer e (toString16 (chainId t))) None))],
           (case to t of
              None \<Rightarrow> []
            | Some a \<Rightarrow>
                if truthy (Some a) then [(''to'', JString (addressNormalizer e a None))] else [])],
      txOpts = getChainDefinition e (chainId t)\<rparr>"

text \<open>Lines 236 to 238: the normalized strings are assigned as they are.\<close>

definition earlier_signedTransaction ::
  "env \<Rightarrow> EthereumTx \<Rightarrow> TransactionSignatureReturnType \<Rightarrow> EthereumTx" where
  "earlier_signedTransaction e unsignedTransaction response =
     (let tx1 = setField unsignedTransaction ''r''
            (JString (hexSequenceNormalizer e (tx_r response) None));
          tx2 = setField tx1 ''s''
            (JString (hexSequenceNormalizer e (tx_s response) None));
          tx3 = setField tx2 ''v''
            (JString (hexSequenceNormalizer e (tx_v response) None))
      in tx3)"

definition earlier_signTransaction_try ::
  "env \<Rightarrow> TransactionObjectTypeWithDerivationPath \<Rightarrow> TransactionObjectTypeWithTo \<Rightarrow>
   error + string" where
  "earlier_signTransaction_try e obj t =
     (case ledgerConnection e of
        Inl thrown \<Rightarrow> Inl thrown
      | Inr ledger \<Rightarrow>
          (case derivationPathValidator e (derivationPath obj) of
             Inl thrown \<Rightarrow> Inl thrown
           | Inr _ \<Rightarrow>
               (let unsignedTransaction = earlier_unsignedTransaction e t
                in case signTransaction ledger
                          (derivationPathNormalizer e (derivationPath obj))
                          (Buffer_toString e (serialize e unsignedTransaction)
                             (HEX_HASH_TYPE e)) of
                     Inl thrown \<Rightarrow> Inl thrown
                   | Inr response \<Rightarrow>
                       Inr (hexSequenceNormalizer e
                         (Buffer_toString e
                            (serialize e
                               (earlier_signedTransaction e unsignedTransaction response))
                            (HEX_HASH_TYPE e))
                         None))))"

text \<open>
  The argument is destructured into \<open>derivationPath\<close> and the rest, which for an
  argument of type \<open>TransactionObjectTypeWithDerivationPath\<close> are the seven
  transaction fields.
\<close>

definition earlier_signTransaction ::
  "env \<Rightarrow> TransactionObjectTypeWithDerivationPath \<Rightarrow> error + string option" where
  "earlier_signTransaction e obj =
     (case transactionObjectValidator e (transactionObject obj) of
        Inl thrown \<Rightarrow> Inl thrown
      | Inr t \<Rightarrow>
          (case earlier_signTransaction_try e obj t of
             Inr signed \<Rightarrow> Inr (Some signed)
           | Inl caughtError \<Rightarrow>
               (case handleLedgerConnectionError e caughtError
                       (userSignTxGenericError (ledger_messages e) @ '': '' @
                        objectToErrorString e
                          (transactionObject_properties (transactionObject obj)) @ '' '' @
                        error_message caughtError) of
                  Inl thrown \<Rightarrow> Inl thrown
                | Inr _ \<Rightarrow> Inr None)))"

section \<open>A concrete environment\<close>

text \<open>
  The theorems quantify over the environment. Closed instances are evaluated in the
  environment \<open>demo\<close> below: the codecs and validators of purser-core as the spec
  describes them, Node's \<open>Buffer\<close> for the two encodings used, RLP for \<open>serialize\<close>,
  and devices that answer with fixed signature values.
\<close>

definition isHexDigit :: "char \<Rightarrow> bool" where
  "isHexDigit c = (c \<in> set ''0123456789abcdefABCDEF'')"

definition toLowerCase :: "string \<Rightarrow> string" where
  "toLowerCase a =
     map (\<lambda>c. case map_of (zip ''ABCDEFGHIJKLMNOPQRSTUVWXYZ'' ''abcdefghijklmnopqrstuvwxyz'') c of
                None \<Rightarrow> c | Some d \<Rightarrow> d) a"

text \<open>
  Modelled from the spec: the HexCodec of purser-core/normalizers, which is not among
  the sources. \<open>stripPrefix\<close> and \<open>withPrefix\<close> remove and add \<open>0x\<close>; \<open>toEvenHex\<close>
  prepends a zero nibble to an odd number of digits.
\<close>

definition stripPrefix :: "string \<Rightarrow> string" where
  "stripPrefix a = (if take 2 a = ''0x'' then drop 2 a else a)"

definition withPrefix :: "string \<Rightarrow> string" where
  "withPrefix a = ''0x'' @ a"

definition toEvenHex :: "string \<Rightarrow> string" where
  "toEvenHex a = (if odd (length a) then CHR ''0'' # a else a)"

text \<open>
  Modelled from the spec: \<open>multipleOfTwoHexValueNormalizer\<close>, \<open>hexSequenceNormalizer\<close>
  and \<open>addressNormalizer\<close> of purser-core/normalizers. Output that carries the prefix
  is normalized to an even number of digits (spec, 4.6).
\<close>

definition demo_multipleOfTwoHexValueNormalizer :: "string \<Rightarrow> string" where
  "demo_multipleOfTwoHexValueNormalizer a = toEvenHex (stripPrefix (toLowerCase a))"

definition demo_hexSequenceNormalizer :: "string \<Rightarrow> bool option \<Rightarrow> string" where
  "demo_hexSequenceNormalizer a prefix =
     (if prefix = Some False then stripPrefix (toLowerCase a)
      else withPrefix (toEvenHex (stripPrefix (toLowerCase a))))"

definition demo_addressNormalizer :: "string \<Rightarrow> bool option \<Rightarrow> string" where
  "demo_addressNormalizer a prefix =
     (if prefix = Some False then stripPrefix (toLowerCase a)
      else withPrefix (stripPrefix (toLowerCase a)))"

text \<open>
  Modelled from the spec: the validators of purser-core/validators and
  purser-core/helpers, which are not among the sources. They fail when the input
  contains characters that are not hexadecimal digits (spec, 4.1), when the derivation
  path does not start at \<open>m/\<close> (4.2), and when a transaction field has the wrong
  type (4.3); a valid input is returned unchanged.
\<close>

definition isHexSequence :: "string \<Rightarrow> bool" where
  "isHexSequence a = list_all isHexDigit (stripPrefix (toLowerCase a))"

definition demo_addressValidator :: "string \<Rightarrow> error + unit" where
  "demo_addressValidator a =
     (if isHexSequence a \<and> length (stripPrefix (toLowerCase a)) = 40 then Inr ()
      else Inl (Error ''InvalidEncoding: address''))"

definition demo_hexSequenceValidator :: "string \<Rightarrow> error + unit" where
  "demo_hexSequenceValidator a =
     (if isHexSequence a then Inr () else Inl (Error ''InvalidEncoding: hex sequence''))"

definition demo_derivationPathValidator :: "string \<Rightarrow> error + unit" where
  "demo_derivationPathValidator p =
     (if take 2 p = ''m/'' then Inr () else Inl (Error ''InvalidDerivationPath''))"

definition demo_transactionObjectValidator ::
  "TransactionObjectTypeWithTo \<Rightarrow> error + TransactionObjectTypeWithTo" where
  "demo_transactionObjectValidator t =
     (if isHexSequence (gasPrice t) \<and> isHexSequence (gasLimit t) \<and>
         isHexSequence (value t) \<and> isHexSequence (inputData t)
      then Inr t else Inl (Error ''InvalidType''))"

definition demo_messageVerificationObjectValidator ::
  "MessageVerificationObjectType \<Rightarrow> error + MessageVerificationObjectType" where
  "demo_messageVerificationObjectValidator m =
     (if isHexSequence (signature m) then Inr m
      else Inl (Error ''InvalidEncoding: signature''))"

text \<open>
  Modelled from the spec: \<open>messageOrDataValidator\<close> of purser-core/helpers requires
  exactly one of the message and the message data (spec, 4.3).
\<close>

fun demo_messageOrDataValidator :: "string option \<Rightarrow> string option \<Rightarrow> error + string" where
  "demo_messageOrDataValidator (Some m) None = Inr m"
| "demo_messageOrDataValidator None (Some d) = Inr d"
| "demo_messageOrDataValidator _ _ = Inl (Error ''AmbiguousOrMissingMessage'')"

text \<open>Decimal digits of a number, and a rendering of an object's properties.\<close>

fun toString10 :: "nat \<Rightarrow> string" where
  "toString10 n =
     (if n < 10 then [''0123456789'' ! n]
      else toString10 (n div 10) @ [''0123456789'' ! (n mod 10)])"

declare toString10.simps [simp del]

fun joinWith :: "string \<Rightarrow> string list \<Rightarrow> string" where
  "joinWith sep [] = []"
| "joinWith sep [a] = a"
| "joinWith sep (a # b # rest) = a @ sep @ joinWith sep (b # rest)"

fun renderValue :: "jsval \<Rightarrow> string" where
  "renderValue JUndefined = ''undefined''"
| "renderValue (JString a) = a"
| "renderValue (JNumber n) = toString10 n"
| "renderValue (JBoolean b) = (if b then ''true'' else ''false'')"
| "renderValue (JArray ns) = joinWith '','' (map toString10 ns)"
| "renderValue (JBuffer ns) = joinWith '','' (map toString10 ns)"

definition demo_objectToErrorString :: "jsobject \<Rightarrow> string" where
  "demo_objectToErrorString obj =
     concat (map (\<lambda>(k, x). k @ '' ('' @ renderValue x @ ''), '') obj)"

text \<open>
  Node's \<open>Buffer\<close> for the encodings \<open>'hex'\<close> and \<open>'utf8'\<close> (on ASCII text). Decoding
  \<open>'hex'\<close> reads two digits per byte and stops at the first pair that is not two
  hexadecimal digits, as Node documents it.
\<close>

definition hexDigitValue :: "char \<Rightarrow> nat option" where
  "hexDigitValue c =
     map_of
       [(CHR ''0'', 0), (CHR ''1'', 1), (CHR ''2'', 2), (CHR ''3'', 3), (CHR ''4'', 4),
        (CHR ''5'', 5), (CHR ''6'', 6), (CHR ''7'', 7), (CHR ''8'', 8), (CHR ''9'', 9),
        (CHR ''a'', 10), (CHR ''b'', 11), (CHR ''c'', 12), (CHR ''d'', 13), (CHR ''e'', 14),
        (CHR ''f'', 15), (CHR ''A'', 10), (CHR ''B'', 11), (CHR ''C'', 12), (CHR ''D'', 13),
        (CHR ''E'', 14), (CHR ''F'', 15)] c"

fun hexDecode :: "string \<Rightarrow> nat list" where
  "hexDecode (a # b # rest) =
     (case hexDigitValue a of
        None \<Rightarrow> []
      | Some x \<Rightarrow>
          (case hexDigitValue b of
             None \<Rightarrow> []
           | Some y \<Rightarrow> (16 * x + y) # hexDecode rest))"
| "hexDecode _ = []"

definition hexEncode :: "nat list \<Rightarrow> string" where
  "hexEncode bs =
     concat (map (\<lambda>b. [''0123456789abcdef'' ! (b div 16), ''0123456789abcdef'' ! (b mod 16)]) bs)"

definition demo_Buffer_from :: "string \<Rightarrow> string \<Rightarrow> nat list" where
  "demo_Buffer_from a encoding = (if encoding = ''hex'' then hexDecode a else map of_char a)"

definition demo_Buffer_toString :: "nat list \<Rightarrow> string \<Rightarrow> string" where
  "demo_Buffer_toString bs encoding =
     (if encoding = ''hex'' then hexEncode bs else map char_of bs)"

text \<open>
  \<open>serialize\<close> of ethereumjs-tx: the RLP list of the nine transaction fields. A field
  given as a \<open>0x\<close> string is decoded from its digits, a \<open>Buffer\<close> is taken as it is;
  the numeric fields drop leading zero bytes.
\<close>

fun bytesOfNat :: "nat \<Rightarrow> nat list" where
  "bytesOfNat n = (if n = 0 then [] else bytesOfNat (n div 256) @ [n mod 256])"

declare bytesOfNat.simps [simp del]

definition rlpLength :: "nat \<Rightarrow> nat \<Rightarrow> nat list" where
  "rlpLength len offset =
     (if len < 56 then [offset + len]
      else (offset + 55 + length (bytesOfNat len)) # bytesOfNat len)"

definition rlpItem :: "nat list \<Rightarrow> nat list" where
  "rlpItem bs =
     (if length bs = 1 \<and> hd bs < 128 then bs else rlpLength (length bs) 128 @ bs)"

definition rlpList :: "nat list list \<Rightarrow> nat list" where
  "rlpList items =
     (let payload = concat (map rlpItem items)
      in rlpLength (length payload) 192 @ payload)"

fun toBuffer :: "jsval \<Rightarrow> nat list" where
  "toBuffer (JString a) = hexDecode (toEvenHex (stripPrefix a))"
| "toBuffer (JBuffer bs) = bs"
| "toBuffer (JNumber n) = bytesOfNat n"
| "toBuffer _ = []"

definition txField :: "EthereumTx \<Rightarrow> string \<Rightarrow> bool \<Rightarrow> nat list" where
  "txField tx k allowLess =
     (case getProperty (txData tx) k of
        None \<Rightarrow> []
      | Some x \<Rightarrow> if allowLess then dropWhile (\<lambda>b. b = 0) (toBuffer x) else toBuffer x)"

definition demo_serialize :: "EthereumTx \<Rightarrow> nat list" where
  "demo_serialize tx =
     rlpList
       [txField tx ''nonce'' True, txField tx ''gasPrice'' True, txField tx ''gasLimit'' True,
        txField tx ''to'' False, txField tx ''value'' True, txField tx ''data'' False,
        txField tx ''v'' True, txField tx ''r'' True, txField tx ''s'' True]"

text \<open>
  Modelled from the spec: the DerivationPathCodec (spec, 4.2). A path
  \<open>m/a/b/...\<close> is the array of its indices, a segment that ends in an apostrophe
  with the high bit set.
\<close>

fun splitOn :: "char \<Rightarrow> string \<Rightarrow> string list" where
  "splitOn c [] = [[]]"
| "splitOn c (x # xs) =
     (if x = c then [] # splitOn c xs
      else (case splitOn c xs of [] \<Rightarrow> [[x]] | seg # segs \<Rightarrow> (x # seg) # segs))"

definition parseDecimal :: "string \<Rightarrow> nat" where
  "parseDecimal a = foldl (\<lambda>acc c. 10 * acc + (of_char c - 48)) 0 a"

definition pathIndex :: "string \<Rightarrow> nat" where
  "pathIndex seg =
     (if seg \<noteq> [] \<and> last seg = CHR 0x27 then parseDecimal (butlast seg) + 2 ^ 31
      else parseDecimal seg)"

definition demo_fromString_toPathArray :: "string \<Rightarrow> nat list" where
  "demo_fromString_toPathArray p = map pathIndex (tl (splitOn CHR ''/'' p))"

text \<open>
  The devices of the concrete environment. The Trezor service answers a signing
  request with fixed \<open>r\<close> and \<open>s\<close> and the recovery value already encoded for the
  \<open>chain_id\<close> of the payload, and confirms exactly the signature it hands out. The
  Ledger device answers with the recovery value of chain 1.
\<close>

definition demo_payloadListener :: "jsobject \<Rightarrow> error + TrezorResponse" where
  "demo_payloadListener payload =
     Inr \<lparr>trezor_r = ''aa'', trezor_s = ''bb'',
          trezor_v = (case getProperty payload ''chain_id'' of
                        Some (JNumber c) \<Rightarrow> 2 * c + 35 | _ \<Rightarrow> 27),
          trezor_signature = Some ''aabb1b'',
          trezor_success = (getProperty payload ''signature'' = Some (JString ''aabb1b''))\<rparr>"

definition demo_ledger :: LedgerInstanceType where
  "demo_ledger =
     \<lparr>signTransaction = (\<lambda>path hex. Inr \<lparr>tx_r = ''aa'', tx_s = ''bb'', tx_v = ''25''\<rparr>),
      signPersonalMessage = (\<lambda>path hex. Inr \<lparr>msg_r = ''aa'', msg_s = ''bb'', msg_v = 27\<rparr>)\<rparr>"

definition demo_messages :: staticMethodsMessages where
  "demo_messages =
     \<lparr>userSignTxCancel = ''User cancelled signing the transaction'',
      userSignTxGenericError = ''Could not sign the transaction'',
      signMessageArgumentMissing = ''The signMessage argument is missing''\<rparr>"

definition demo :: env where
  "demo =
     \<lparr>addressValidator = demo_addressValidator,
      derivationPathValidator = demo_derivationPathValidator,
      hexSequenceValidator = demo_hexSequenceValidator,
      transactionObjectValidator = demo_transactionObjectValidator,
      messageVerificationObjectValidator = demo_messageVerificationObjectValidator,
      messageOrDataValidator = demo_messageOrDataValidator,
      derivationPathNormalizer = (\<lambda>p. p),
      multipleOfTwoHexValueNormalizer = demo_multipleOfTwoHexValueNormalizer,
      addressNormalizer = demo_addressNormalizer,
      hexSequenceNormalizer = demo_hexSequenceNormalizer,
      objectToErrorString = demo_objectToErrorString,
      getChainDefinition = (\<lambda>c. [(''chain'', JNumber c)]),
      verifyMessageSignature = (\<lambda>key text sig. Inr (sig = ''0xaabb1b'')),
      HEX_HASH_TYPE = ''hex'',
      SIGNATURE_R = ''0'',
      SIGNATURE_S = ''0'',
      fromString_toPathArray = demo_fromString_toPathArray,
      serialize = demo_serialize,
      Buffer_from = demo_Buffer_from,
      Buffer_toString = demo_Buffer_toString,
      payloadListener = demo_payloadListener,
      CANCEL_TX_SIGN = ''Action cancelled by user'',
      PAYLOAD_SIGNTX = [(''type'', JString ''signtx'')],
      PAYLOAD_SIGNMSG = [(''type'', JString ''signmsg'')],
      PAYLOAD_VERIFYMSG = [(''type'', JString ''verifymsg'')],
      trezor_messages = demo_messages,
      ledgerConnection = Inr demo_ledger,
      handleLedgerConnectionError = (\<lambda>caught specificMessage. Inl (Error specificMessage)),
      ledger_messages = demo_messages\<rparr>"

text \<open>The request of the spec's example, with a full destination address.\<close>

definition exampleRequest :: TransactionObjectTypeWithDerivationPath where
  "exampleRequest =
     \<lparr>chainId = 1, gasPrice = ''0x3b9aca00'', gasLimit = ''0x5208'', nonce = 0,
      value = ''0x0'', inputData = ''0x'',
      to = Some ''0x00000000000000000000000000000000000000ab'',
      derivationPath = ''m/44'/60'/0'/0/0''\<rparr>"


definition unprefixedRequest :: TransactionObjectTypeWithDerivationPath where
  "unprefixedRequest = exampleRequest\<lparr>gasPrice := ''3b9aca00''\<rparr>"

definition exampleMessage :: SignMessageObject where
  "exampleMessage =
     \<lparr>signPath = ''m/44'/60'/0'/0/0'', signMessageText = Some ''hi'',
      signMessageData = None\<rparr>"

text \<open>
  Variants of the concrete environment: a Trezor service on which the user cancels, one
  that fails otherwise, one that answers with the raw recovery id 0, and a Ledger
  device that fails.
\<close>

definition demo_cancelled :: env where
  "demo_cancelled = demo\<lparr>payloadListener := (\<lambda>payload. Inl (Error ''Action cancelled by user''))\<rparr>"

definition demo_failing :: env where
  "demo_failing = demo\<lparr>payloadListener := (\<lambda>payload. Inl (Error ''boom''))\<rparr>"


definition demo_failingLedger :: env where
  "demo_failingLedger =
     demo\<lparr>ledgerConnection :=
       Inr \<lparr>signTransaction = (\<lambda>path hex. Inl (Error ''boom'')),
            signPersonalMessage = (\<lambda>path hex. Inl (Error ''boom''))\<rparr>\<rparr>"




section \<open>Properties of objects\<close>

lemma getProperty_Nil: "getProperty [] k = None"
  by (simp add: getProperty_def)

lemma getProperty_Cons:
  "getProperty ((k', x) # ps) k = (if k = k' then Some x else getProperty ps k)"
  by (simp add: getProperty_def)

lemma getProperty_setProperty:
  "getProperty (setProperty ps k x) k' = (if k' = k then Some x else getProperty ps k')"
  by (induction ps k x rule: setProperty.induct) (auto simp: getProperty_def)

lemma getProperty_assignFrom:
  "getProperty (assignFrom target src) k =
     (case getProperty (rev src) k of None \<Rightarrow> getProperty target k | Some x \<Rightarrow> Some x)"
proof (induction target src rule: assignFrom.induct)
  case (1 target)
  then show ?case by (simp add: getProperty_def)
next
  case (2 target k' x src)
  show ?case
    using "2.IH"
    by (auto simp: getProperty_def getProperty_setProperty[unfolded getProperty_def]
        map_add_def split: option.splits)
qed


lemma assignFrom_Nil_literal: "assignFrom [] [] = []"
  by simp

section \<open>The fields of the concrete environment\<close>

lemma demo_fields:
  "addressValidator demo = demo_addressValidator"
  "derivationPathValidator demo = demo_derivationPathValidator"
  "hexSequenceValidator demo = demo_hexSequenceValidator"
  "transactionObjectValidator demo = demo_transactionObjectValidator"
  "messageVerificationObjectValidator demo = demo_messageVerificationObjectValidator"
  "messageOrDataValidator demo = demo_messageOrDataValidator"
  "derivationPathNormalizer demo = (\<lambda>p. p)"
  "multipleOfTwoHexValueNormalizer demo = demo_multipleOfTwoHexValueNormalizer"
  "addressNormalizer demo = demo_addressNormalizer"
  "hexSequenceNormalizer demo = demo_hexSequenceNormalizer"
  "objectToErrorString demo = demo_objectToErrorString"
  "getChainDefinition demo = (\<lambda>c. [(''chain'', JNumber c)])"
  "verifyMessageSignature demo = (\<lambda>key text sig. Inr (sig = ''0xaabb1b''))"
  "HEX_HASH_TYPE demo = ''hex''"
  "SIGNATURE_R demo = ''0''"
  "SIGNATURE_S demo = ''0''"
  "fromString_toPathArray demo = demo_fromString_toPathArray"
  "serialize demo = demo_serialize"
  "Buffer_from demo = demo_Buffer_from"
  "Buffer_toString demo = demo_Buffer_toString"
  "payloadListener demo = demo_payloadListener"
  "CANCEL_TX_SIGN demo = ''Action cancelled by user''"
  "PAYLOAD_SIGNTX demo = [(''type'', JString ''signtx'')]"
  "PAYLOAD_SIGNMSG demo = [(''type'', JString ''signmsg'')]"
  "PAYLOAD_VERIFYMSG demo = [(''type'', JString ''verifymsg'')]"
  "trezor_messages demo = demo_messages"
  "ledgerConnection demo = Inr demo_ledger"
  "handleLedgerConnectionError demo = (\<lambda>caught specificMessage. Inl (Error specificMessage))"
  "ledger_messages demo = demo_messages"
  by (simp_all add: demo_def)

lemma exampleRequest_fields:
  "transactionObject exampleRequest =
     \<lparr>chainId = 1, gasPrice = ''0x3b9aca00'', gasLimit = ''0x5208'', nonce = 0,
      value = ''0x0'', inputData = ''0x'',
      to = Some ''0x00000000000000000000000000000000000000ab''\<rparr>"
  "derivationPath exampleRequest = ''m/44'/60'/0'/0/0''"
  by (simp_all add: transactionObject_def exampleRequest_def)

lemma toLowerCase_example:
  "toLowerCase ''0x3b9aca00'' = ''0x3b9aca00''"
  "toLowerCase ''0x5208'' = ''0x5208''"
  "toLowerCase ''0x0'' = ''0x0''"
  "toLowerCase ''0x'' = ''0x''"
  "toLowerCase ''0'' = ''0''"
  "toLowerCase ''1'' = ''1''"
  "toLowerCase ''0x00000000000000000000000000000000000000ab'' =
     ''0x00000000000000000000000000000000000000ab''"
  by (simp_all add: toLowerCase_def)

lemma toString16_digit: "n < 16 \<Longrightarrow> toString16 n = [''0123456789abcdef'' ! n]"
  by (subst toString16.simps) simp

lemma toString16_small: "toString16 0 = ''0''" "toString16 (Suc 0) = ''1''"
  by (simp_all add: toString16_digit)

lemma demo_validates_exampleRequest:
  "demo_transactionObjectValidator (transactionObject exampleRequest) =
     Inr (transactionObject exampleRequest)"
  by (simp add: demo_transactionObjectValidator_def exampleRequest_fields isHexSequence_def
      toLowerCase_example stripPrefix_def isHexDigit_def)

lemma demo_normalized_example:
  "demo_multipleOfTwoHexValueNormalizer ''0x3b9aca00'' = ''3b9aca00''"
  "demo_multipleOfTwoHexValueNormalizer ''0x5208'' = ''5208''"
  "demo_multipleOfTwoHexValueNormalizer ''0x0'' = ''00''"
  "demo_multipleOfTwoHexValueNormalizer ''0'' = ''00''"
  "demo_multipleOfTwoHexValueNormalizer ''1'' = ''01''"
  by (simp_all add: demo_multipleOfTwoHexValueNormalizer_def toLowerCase_example
      stripPrefix_def toEvenHex_def)

lemma toLowerCase_normalized:
  "toLowerCase ''3b9aca00'' = ''3b9aca00''"
  "toLowerCase ''5208'' = ''5208''"
  "toLowerCase ''00'' = ''00''"
  "toLowerCase ''01'' = ''01''"
  by (simp_all add: toLowerCase_def)

lemma demo_prefixed_example:
  "demo_hexSequenceNormalizer ''3b9aca00'' None = ''0x3b9aca00''"
  "demo_hexSequenceNormalizer ''5208'' None = ''0x5208''"
  "demo_hexSequenceNormalizer ''00'' None = ''0x00''"
  "demo_hexSequenceNormalizer ''01'' None = ''0x01''"
  "demo_hexSequenceNormalizer ''0x'' None = ''0x''"
  "demo_hexSequenceNormalizer ''0x'' (Some False) = []"
  by (simp_all add: demo_hexSequenceNormalizer_def toLowerCase_normalized toLowerCase_example
      stripPrefix_def toEvenHex_def withPrefix_def)

lemma demo_address_example:
  "demo_addressNormalizer ''0x00000000000000000000000000000000000000ab'' (Some False) =
     ''00000000000000000000000000000000000000ab''"
  "demo_addressNormalizer ''0x00000000000000000000000000000000000000ab'' None =
     ''0x00000000000000000000000000000000000000ab''"
  by (simp_all add: demo_addressNormalizer_def toLowerCase_example stripPrefix_def
      withPrefix_def)

section \<open>The unsigned transaction object\<close>

lemma trezor_unsignedTransaction_gasLimit_slot:
  "getProperty (txData (trezor_unsignedTransaction e t)) ''gasLimit'' =
     Some (JString (hexSequenceNormalizer e
       (multipleOfTwoHexValueNormalizer e (gasPrice t)) None))"
  by (simp add: trezor_unsignedTransaction_def getProperty_Cons)

lemma ledger_unsignedTransaction_txData:
  "txData (ledger_unsignedTransaction e t) =
     [(''gasPrice'', JString (hexSequenceNormalizer e
         (multipleOfTwoHexValueNormalizer e (gasPrice t)) None)),
      (''gasLimit'', JString (hexSequenceNormalizer e
         (multipleOfTwoHexValueNormalizer e (gasLimit t)) None)),
      (''nonce'', JString (hexSequenceNormalizer e
         (multipleOfTwoHexValueNormalizer e (toString16 (nonce t))) None)),
      (''value'', JString (hexSequenceNormalizer e
         (multipleOfTwoHexValueNormalizer e (value t)) None)),
      (''data'', JString (hexSequenceNormalizer e (inputData t) None)),
      (''r'', JString (hexSequenceNormalizer e
         (multipleOfTwoHexValueNormalizer e (SIGNATURE_R e)) None)),
      (''s'', JString (hexSequenceNormalizer e
         (multipleOfTwoHexValueNormalizer e (SIGNATURE_S e)) None)),
      (''v'', JString (hexSequenceNormalizer e
         (multipleOfTwoHexValueNormalizer e (toString16 (chainId t))) None))] @
     (if truthy (to t)
      then [(''to'', JString (addressNormalizer e (case to t of Some a \<Rightarrow> a | None \<Rightarrow> []) None))]
      else [])"
  by (simp add: ledger_unsignedTransaction_def split: option.splits)



section \<open>The destination address\<close>







section \<open>The argument check of signMessage\<close>

text \<open>
  C9: when the argument is \<open>null\<close> or its \<open>typeof\<close> is not \<open>'object'\<close>, both
  \<open>signMessage\<close> functions throw the fixed \<open>signMessageArgumentMissing\<close> error. The throw
  precedes every validator, normalizer and device call: the outcome is the same in every
  environment that has the same messages.
\<close>

theorem signMessage_argument_missing:
  assumes "arg = ArgNull \<or> typeof arg \<noteq> ''object''"
  shows
    "trezor_signMessage e arg =
       Inl (Error (signMessageArgumentMissing (trezor_messages e))) \<and>
     ledger_signMessage e arg =
       Inl (Error (signMessageArgumentMissing (ledger_messages e))) \<and>
     (\<forall>e'. trezor_messages e' = trezor_messages e \<longrightarrow>
        trezor_signMessage e' arg = trezor_signMessage e arg) \<and>
     (\<forall>e'. ledger_messages e' = ledger_messages e \<longrightarrow>
        ledger_signMessage e' arg = ledger_signMessage e arg)"
  using assms
  by (cases arg) (simp_all add: trezor_signMessage_def ledger_signMessage_def)

theorem signMessage_argument_missing_witness:
  "trezor_signMessage demo ArgNull = Inl (Error ''The signMessage argument is missing'') \<and>
   ledger_signMessage demo (ArgString ''hi'') =
     Inl (Error ''The signMessage argument is missing'') \<and>
   trezor_signMessage demo_failing ArgUndefined = trezor_signMessage demo ArgUndefined"
proof -
  have a: "(ArgNull :: SignMessageObject jsarg) = ArgNull \<or>
           typeof (ArgNull :: SignMessageObject jsarg) \<noteq> ''object''"
    by simp
  have b: "(ArgString ''hi'' :: SignMessageObject jsarg) = ArgNull \<or>
           typeof (ArgString ''hi'' :: SignMessageObject jsarg) \<noteq> ''object''"
    by simp
  have c: "(ArgUndefined :: SignMessageObject jsarg) = ArgNull \<or>
           typeof (ArgUndefined :: SignMessageObject jsarg) \<noteq> ''object''"
    by simp
  have same: "trezor_messages demo_failing = trezor_messages demo"
    by (simp add: demo_failing_def)
  show ?thesis
    using signMessage_argument_missing [OF a, of demo]
      signMessage_argument_missing [OF b, of demo]
      signMessage_argument_missing [OF c, of demo] same
    by (simp add: demo_fields demo_messages_def)
qed

section \<open>Failures of the Trezor service\<close>

lemma trezor_signTransaction_caught:
  assumes "transactionObjectValidator e (transactionObject obj) = Inr t"
    and "derivationPathValidator e (derivationPath obj) = Inr u"
    and "payloadListener e (trezor_modifiedPayloadObject e t (derivationPath obj)) = Inl caught"
  shows "trezor_signTransaction e obj =
     (if error_message caught = CANCEL_TX_SIGN e
      then Inl (Error (userSignTxCancel (trezor_messages e)))
      else Inl (Error
        (userSignTxGenericError (trezor_messages e) @ '': '' @
         objectToErrorString e (trezor_modifiedPayloadObject e t (derivationPath obj)) @ '' '' @
         error_message caught)))"
  using assms by (simp add: trezor_signTransaction_def)

lemma trezor_signMessage_caught:
  assumes "derivationPathValidator e (signPath m) = Inr u"
    and "messageOrDataValidator e (signMessageText m) (signMessageData m) = Inr toSign"
    and "payloadListener e (trezor_signMessagePayload e m toSign) = Inl caught"
  shows "trezor_signMessage e (ArgObject m) =
     (if error_message caught = CANCEL_TX_SIGN e
      then Inl (Error (userSignTxCancel (trezor_messages e)))
      else Inl (Error
        (userSignTxGenericError (trezor_messages e) @ '': message: ('' @
         templateString (signMessageText m) @ '') '' @ error_message caught)))"
  using assms by (simp add: trezor_signMessage_def)

text \<open>
  C4: when the Trezor service fails during \<open>signTransaction\<close> or \<open>signMessage\<close> with an
  error whose message is the cancellation signal \<open>STD_ERRORS.CANCEL_TX_SIGN\<close>, the caller
  gets an error whose message is exactly the fixed \<open>userSignTxCancel\<close> text, whatever the
  request and the payload were.
\<close>

theorem trezor_cancellation_is_reclassified:
  "(transactionObjectValidator e (transactionObject obj) = Inr t \<and>
    derivationPathValidator e (derivationPath obj) = Inr u \<and>
    payloadListener e (trezor_modifiedPayloadObject e t (derivationPath obj)) = Inl caught \<and>
    error_message caught = CANCEL_TX_SIGN e \<longrightarrow>
      trezor_signTransaction e obj = Inl (Error (userSignTxCancel (trezor_messages e)))) \<and>
   (derivationPathValidator e (signPath m) = Inr u \<and>
    messageOrDataValidator e (signMessageText m) (signMessageData m) = Inr toSign \<and>
    payloadListener e (trezor_signMessagePayload e m toSign) = Inl caught \<and>
    error_message caught = CANCEL_TX_SIGN e \<longrightarrow>
      trezor_signMessage e (ArgObject m) = Inl (Error (userSignTxCancel (trezor_messages e))))"
  by (simp add: trezor_signTransaction_caught trezor_signMessage_caught)

lemma demo_cancelled_fields:
  "transactionObjectValidator demo_cancelled = demo_transactionObjectValidator"
  "derivationPathValidator demo_cancelled = demo_derivationPathValidator"
  "messageOrDataValidator demo_cancelled = demo_messageOrDataValidator"
  "payloadListener demo_cancelled = (\<lambda>payload. Inl (Error ''Action cancelled by user''))"
  "CANCEL_TX_SIGN demo_cancelled = ''Action cancelled by user''"
  "trezor_messages demo_cancelled = demo_messages"
  by (simp_all add: demo_cancelled_def demo_def)

lemma demo_accepts_examplePath:
  "demo_derivationPathValidator ''m/44'/60'/0'/0/0'' = Inr ()"
  by (simp add: demo_derivationPathValidator_def)

lemma exampleMessage_fields:
  "signPath exampleMessage = ''m/44'/60'/0'/0/0''"
  "signMessageText exampleMessage = Some ''hi''"
  "signMessageData exampleMessage = None"
  by (simp_all add: exampleMessage_def)

theorem trezor_cancellation_is_reclassified_witness:
  "trezor_signTransaction demo_cancelled exampleRequest =
     Inl (Error ''User cancelled signing the transaction'') \<and>
   trezor_signMessage demo_cancelled (ArgObject exampleMessage) =
     Inl (Error ''User cancelled signing the transaction'')"
proof -
  have valid: "transactionObjectValidator demo_cancelled (transactionObject exampleRequest) =
      Inr (transactionObject exampleRequest)"
    by (simp add: demo_cancelled_fields demo_validates_exampleRequest)
  have path: "derivationPathValidator demo_cancelled (derivationPath exampleRequest) = Inr ()"
    by (simp add: demo_cancelled_fields exampleRequest_fields demo_accepts_examplePath)
  have sign_path: "derivationPathValidator demo_cancelled (signPath exampleMessage) = Inr ()"
    by (simp add: demo_cancelled_fields exampleMessage_fields demo_accepts_examplePath)
  have to_sign: "messageOrDataValidator demo_cancelled (signMessageText exampleMessage)
      (signMessageData exampleMessage) = Inr ''hi''"
    by (simp add: demo_cancelled_fields exampleMessage_fields)
  have cancel: "payloadListener demo_cancelled p = Inl (Error ''Action cancelled by user'')"
    "error_message (Error ''Action cancelled by user'') = CANCEL_TX_SIGN demo_cancelled" for p
    by (simp_all add: demo_cancelled_fields)
  have fixed: "userSignTxCancel (trezor_messages demo_cancelled) =
      ''User cancelled signing the transaction''"
    by (simp add: demo_cancelled_fields demo_messages_def)
  show ?thesis
    using trezor_cancellation_is_reclassified
      [of demo_cancelled exampleRequest "transactionObject exampleRequest" "()"
          "Error ''Action cancelled by user''" exampleMessage "''hi''"]
      valid path sign_path to_sign cancel
    unfolding fixed by blast
qed

section \<open>Failures of the Ledger device\<close>

lemma ledger_signTransaction_caught:
  assumes "transactionObjectValidator e (transactionObject obj) = Inr t"
    and "ledger_signTransaction_try e obj t = Inl caught"
  shows "ledger_signTransaction e obj =
     (case handleLedgerConnectionError e caught
             (userSignTxGenericError (ledger_messages e) @ '': '' @
              objectToErrorString e (transactionObject_properties (transactionObject obj)) @
              '' '' @ error_message caught) of
        Inl thrown \<Rightarrow> Inl thrown
      | Inr _ \<Rightarrow> Inr None)"
  using assms by (simp add: ledger_signTransaction_def)

lemma ledger_signTransaction_try_device_failure:
  assumes "ledgerConnection e = Inr ledger"
    and "derivationPathValidator e (derivationPath obj) = Inr u"
    and "signTransaction ledger (derivationPathNormalizer e (derivationPath obj))
           (Buffer_toString e (serialize e (ledger_unsignedTransaction e t))
              (HEX_HASH_TYPE e)) = Inl caught"
  shows "ledger_signTransaction_try e obj t = Inl caught"
  using assms by (simp add: ledger_signTransaction_try_def)

text \<open>
  C7, as the code has it. A failure of the Trezor service that is not the cancellation
  signal surfaces as an error whose message is \<open>userSignTxGenericError\<close>, the dump of the
  payload sent to the service and the original message. A failure of the Ledger device
  is handed to \<open>handleLedgerConnectionError\<close> together with \<open>userSignTxGenericError\<close>,
  the dump of \<open>transactionObject\<close> (the request's own seven fields) and the original
  message; the caller gets what that handler throws or returns.
\<close>

theorem signTransaction_generic_error:
  "(transactionObjectValidator e (transactionObject obj) = Inr t \<and>
    derivationPathValidator e (derivationPath obj) = Inr u \<and>
    payloadListener e (trezor_modifiedPayloadObject e t (derivationPath obj)) = Inl caught \<and>
    error_message caught \<noteq> CANCEL_TX_SIGN e \<longrightarrow>
      trezor_signTransaction e obj =
        Inl (Error
          (userSignTxGenericError (trezor_messages e) @ '': '' @
           objectToErrorString e (trezor_modifiedPayloadObject e t (derivationPath obj)) @
           '' '' @ error_message caught))) \<and>
   (transactionObjectValidator e (transactionObject obj) = Inr t \<and>
    ledgerConnection e = Inr ledger \<and>
    derivationPathValidator e (derivationPath obj) = Inr u \<and>
    signTransaction ledger (derivationPathNormalizer e (derivationPath obj))
      (Buffer_toString e (serialize e (ledger_unsignedTransaction e t)) (HEX_HASH_TYPE e)) =
      Inl caught \<longrightarrow>
      ledger_signTransaction e obj =
        (case handleLedgerConnectionError e caught
                (userSignTxGenericError (ledger_messages e) @ '': '' @
                 objectToErrorString e (transactionObject_properties (transactionObject obj)) @
                 '' '' @ error_message caught) of
           Inl thrown \<Rightarrow> Inl thrown
         | Inr _ \<Rightarrow> Inr None))"
  by (simp add: trezor_signTransaction_caught ledger_signTransaction_caught
      ledger_signTransaction_try_device_failure)

lemma demo_failing_fields:
  "transactionObjectValidator demo_failing = demo_transactionObjectValidator"
  "derivationPathValidator demo_failing = demo_derivationPathValidator"
  "payloadListener demo_failing = (\<lambda>payload. Inl (Error ''boom''))"
  "CANCEL_TX_SIGN demo_failing = ''Action cancelled by user''"
  "trezor_messages demo_failing = demo_messages"
  "objectToErrorString demo_failing = demo_objectToErrorString"
  by (simp_all add: demo_failing_def demo_def)

lemma demo_failingLedger_fields:
  "transactionObjectValidator demo_failingLedger = demo_transactionObjectValidator"
  "derivationPathValidator demo_failingLedger = demo_derivationPathValidator"
  "derivationPathNormalizer demo_failingLedger = (\<lambda>p. p)"
  "multipleOfTwoHexValueNormalizer demo_failingLedger = demo_multipleOfTwoHexValueNormalizer"
  "hexSequenceNormalizer demo_failingLedger = demo_hexSequenceNormalizer"
  "addressNormalizer demo_failingLedger = demo_addressNormalizer"
  "getChainDefinition demo_failingLedger = (\<lambda>c. [(''chain'', JNumber c)])"
  "SIGNATURE_R demo_failingLedger = ''0''"
  "SIGNATURE_S demo_failingLedger = ''0''"
  "ledgerConnection demo_failingLedger =
     Inr \<lparr>signTransaction = (\<lambda>path hex. Inl (Error ''boom'')),
          signPersonalMessage = (\<lambda>path hex. Inl (Error ''boom''))\<rparr>"
  "handleLedgerConnectionError demo_failingLedger =
     (\<lambda>caught specificMessage. Inl (Error specificMessage))"
  "ledger_messages demo_failingLedger = demo_messages"
  "objectToErrorString demo_failingLedger = demo_objectToErrorString"
  by (simp_all add: demo_failingLedger_def demo_def)

lemma toString10_digit: "n < 10 \<Longrightarrow> toString10 n = [''0123456789'' ! n]"
  by (subst toString10.simps) simp

lemma toString10_small: "toString10 0 = ''0''" "toString10 (Suc 0) = ''1''"
  by (simp_all add: toString10_digit)

lemma exampleRequest_dump:
  "demo_objectToErrorString (transactionObject_properties (transactionObject exampleRequest)) =
     ''chainId (1), gasPrice (0x3b9aca00), gasLimit (0x5208), nonce (0), value (0x0), inputData (0x), to (0x00000000000000000000000000000000000000ab), ''"
  by (simp add: demo_objectToErrorString_def transactionObject_properties_def
      exampleRequest_fields toString10_small)

theorem signTransaction_generic_error_witness:
  "trezor_signTransaction demo_failing exampleRequest =
     Inl (Error
       (''Could not sign the transaction: '' @
        demo_objectToErrorString
          (trezor_modifiedPayloadObject demo_failing (transactionObject exampleRequest)
             (derivationPath exampleRequest)) @
        '' boom'')) \<and>
   ledger_signTransaction demo_failingLedger exampleRequest =
     Inl (Error ''Could not sign the transaction: chainId (1), gasPrice (0x3b9aca00), gasLimit (0x5208), nonce (0), value (0x0), inputData (0x), to (0x00000000000000000000000000000000000000ab),  boom'')"
proof -
  have valid: "transactionObjectValidator demo_failing (transactionObject exampleRequest) =
      Inr (transactionObject exampleRequest)"
    "transactionObjectValidator demo_failingLedger (transactionObject exampleRequest) =
      Inr (transactionObject exampleRequest)"
    by (simp_all add: demo_failing_fields demo_failingLedger_fields
        demo_validates_exampleRequest)
  have path: "derivationPathValidator demo_failing (derivationPath exampleRequest) = Inr ()"
    "derivationPathValidator demo_failingLedger (derivationPath exampleRequest) = Inr ()"
    by (simp_all add: demo_failing_fields demo_failingLedger_fields exampleRequest_fields
        demo_accepts_examplePath)
  have fails: "payloadListener demo_failing p = Inl (Error ''boom'')"
    "error_message (Error ''boom'') \<noteq> CANCEL_TX_SIGN demo_failing" for p
    by (simp_all add: demo_failing_fields)
  have device: "ledgerConnection demo_failingLedger =
      Inr \<lparr>signTransaction = (\<lambda>path hex. Inl (Error ''boom'')),
           signPersonalMessage = (\<lambda>path hex. Inl (Error ''boom''))\<rparr>"
    by (simp add: demo_failingLedger_fields)
  have device_fails:
    "signTransaction \<lparr>signTransaction = (\<lambda>path hex. Inl (Error ''boom'')),
        signPersonalMessage = (\<lambda>path hex. Inl (Error ''boom''))\<rparr> p h = Inl (Error ''boom'')"
    for p h
    by simp
  have trezor: "trezor_signTransaction demo_failing exampleRequest =
     Inl (Error
       (userSignTxGenericError (trezor_messages demo_failing) @ '': '' @
        objectToErrorString demo_failing
          (trezor_modifiedPayloadObject demo_failing (transactionObject exampleRequest)
             (derivationPath exampleRequest)) @
        '' '' @ error_message (Error ''boom'')))"
    using signTransaction_generic_error
      [of demo_failing exampleRequest "transactionObject exampleRequest" "()"
          "Error ''boom''"]
      valid path fails
    by blast
  have ledger: "ledger_signTransaction demo_failingLedger exampleRequest =
     (case handleLedgerConnectionError demo_failingLedger (Error ''boom'')
             (userSignTxGenericError (ledger_messages demo_failingLedger) @ '': '' @
              objectToErrorString demo_failingLedger
                (transactionObject_properties (transactionObject exampleRequest)) @
              '' '' @ error_message (Error ''boom'')) of
        Inl thrown \<Rightarrow> Inl thrown
      | Inr _ \<Rightarrow> Inr None)"
    using signTransaction_generic_error
      [of demo_failingLedger exampleRequest "transactionObject exampleRequest" "()"
          "Error ''boom''"
          "\<lparr>signTransaction = (\<lambda>path hex. Inl (Error ''boom'')),
            signPersonalMessage = (\<lambda>path hex. Inl (Error ''boom''))\<rparr>"]
      valid path device device_fails
    by blast
  show ?thesis
    unfolding trezor ledger
    by (simp add: demo_failing_fields demo_failingLedger_fields demo_messages_def
        exampleRequest_dump)
qed

lemma unprefixedRequest_fields:
  "transactionObject unprefixedRequest =
     \<lparr>chainId = 1, gasPrice = ''3b9aca00'', gasLimit = ''0x5208'', nonce = 0,
      value = ''0x0'', inputData = ''0x'',
      to = Some ''0x00000000000000000000000000000000000000ab''\<rparr>"
  "derivationPath unprefixedRequest = ''m/44'/60'/0'/0/0''"
  by (simp_all add: transactionObject_def unprefixedRequest_def exampleRequest_def)

lemma demo_validates_unprefixedRequest:
  "demo_transactionObjectValidator (transactionObject unprefixedRequest) =
     Inr (transactionObject unprefixedRequest)"
  by (simp add: demo_transactionObjectValidator_def unprefixedRequest_fields isHexSequence_def
      toLowerCase_example toLowerCase_normalized stripPrefix_def isHexDigit_def)

lemma unprefixedRequest_dump:
  "demo_objectToErrorString (transactionObject_properties (transactionObject unprefixedRequest)) =
     ''chainId (1), gasPrice (3b9aca00), gasLimit (0x5208), nonce (0), value (0x0), inputData (0x), to (0x00000000000000000000000000000000000000ab), ''"
  by (simp add: demo_objectToErrorString_def transactionObject_properties_def
      unprefixedRequest_fields toString10_small)

lemma demo_normalizes_unprefixed:
  "demo_multipleOfTwoHexValueNormalizer ''3b9aca00'' = ''3b9aca00''"
  by (simp add: demo_multipleOfTwoHexValueNormalizer_def toLowerCase_normalized
      stripPrefix_def toEvenHex_def)

lemma ledger_same_unsignedTransaction:
  "ledger_unsignedTransaction demo_failingLedger (transactionObject unprefixedRequest) =
   ledger_unsignedTransaction demo_failingLedger (transactionObject exampleRequest)"
  by (simp add: ledger_unsignedTransaction_def demo_failingLedger_fields
      unprefixedRequest_fields exampleRequest_fields demo_normalized_example
      demo_normalizes_unprefixed)

lemma ledger_signTransaction_device_boom:
  assumes "demo_transactionObjectValidator (transactionObject obj) = Inr (transactionObject obj)"
    and "derivationPath obj = ''m/44'/60'/0'/0/0''"
  shows "ledger_signTransaction demo_failingLedger obj =
     Inl (Error (''Could not sign the transaction: '' @
       demo_objectToErrorString (transactionObject_properties (transactionObject obj)) @
       '' boom''))"
  using assms
  by (simp add: ledger_signTransaction_def ledger_signTransaction_try_def
      demo_failingLedger_fields demo_accepts_examplePath demo_messages_def)

text \<open>
  C7 fails for the Ledger variant. Two requests that differ only in how the gas price
  is written (\<open>0x3b9aca00\<close> and \<open>3b9aca00\<close>) send the same derivation path and the
  same serialized transaction to the device; when the device fails the same way, the
  two errors differ, because each carries the dump of its own request.
\<close>

theorem ledger_error_dumps_request_not_payload:
  "derivationPathNormalizer demo_failingLedger (derivationPath unprefixedRequest) =
     derivationPathNormalizer demo_failingLedger (derivationPath exampleRequest) \<and>
   Buffer_toString demo_failingLedger
     (serialize demo_failingLedger
        (ledger_unsignedTransaction demo_failingLedger (transactionObject unprefixedRequest)))
     (HEX_HASH_TYPE demo_failingLedger) =
   Buffer_toString demo_failingLedger
     (serialize demo_failingLedger
        (ledger_unsignedTransaction demo_failingLedger (transactionObject exampleRequest)))
     (HEX_HASH_TYPE demo_failingLedger) \<and>
   ledger_signTransaction demo_failingLedger exampleRequest =
     Inl (Error ''Could not sign the transaction: chainId (1), gasPrice (0x3b9aca00), gasLimit (0x5208), nonce (0), value (0x0), inputData (0x), to (0x00000000000000000000000000000000000000ab),  boom'') \<and>
   ledger_signTransaction demo_failingLedger unprefixedRequest =
     Inl (Error ''Could not sign the transaction: chainId (1), gasPrice (3b9aca00), gasLimit (0x5208), nonce (0), value (0x0), inputData (0x), to (0x00000000000000000000000000000000000000ab),  boom'') \<and>
   ledger_signTransaction demo_failingLedger exampleRequest \<noteq>
     ledger_signTransaction demo_failingLedger unprefixedRequest"
proof -
  have first: "ledger_signTransaction demo_failingLedger exampleRequest =
     Inl (Error ''Could not sign the transaction: chainId (1), gasPrice (0x3b9aca00), gasLimit (0x5208), nonce (0), value (0x0), inputData (0x), to (0x00000000000000000000000000000000000000ab),  boom'')"
    by (simp add: ledger_signTransaction_device_boom demo_validates_exampleRequest
        exampleRequest_fields(2) exampleRequest_dump)
  have second: "ledger_signTransaction demo_failingLedger unprefixedRequest =
     Inl (Error ''Could not sign the transaction: chainId (1), gasPrice (3b9aca00), gasLimit (0x5208), nonce (0), value (0x0), inputData (0x), to (0x00000000000000000000000000000000000000ab),  boom'')"
    by (simp add: ledger_signTransaction_device_boom demo_validates_unprefixedRequest
        unprefixedRequest_fields(2) unprefixedRequest_dump)
  have paths: "derivationPathNormalizer demo_failingLedger (derivationPath unprefixedRequest) =
     derivationPathNormalizer demo_failingLedger (derivationPath exampleRequest)"
    by (simp add: unprefixedRequest_fields exampleRequest_fields)
  show ?thesis
    unfolding first second ledger_same_unsignedTransaction
    using paths by simp
qed

section \<open>verifyMessage\<close>

text \<open>
  C3, as the code has it. In the Trezor \<open>verifyMessage\<close> an error thrown by
  \<open>addressValidator\<close> or \<open>messageVerificationObjectValidator\<close> reaches the caller;
  once both accept, the function returns a boolean and never throws, and a failure of
  the Trezor service gives \<open>false\<close>. In the Ledger \<open>verifyMessage\<close> an error thrown by
  \<open>hexSequenceValidator\<close> or \<open>messageVerificationObjectValidator\<close> reaches the caller;
  once both accept, the outcome is that of \<open>verifyMessageSignature\<close>.
\<close>

theorem verifyMessage_failure_handling:
  "(addressValidator e (address obj) = Inl thrown \<longrightarrow>
      trezor_verifyMessage e obj = Inl thrown) \<and>
   (addressValidator e (address obj) = Inr u \<and>
    messageVerificationObjectValidator e
      \<lparr>message = message obj, signature = signature obj\<rparr> = Inl thrown \<longrightarrow>
      trezor_verifyMessage e obj = Inl thrown) \<and>
   (addressValidator e (address obj) = Inr u \<and>
    messageVerificationObjectValidator e
      \<lparr>message = message obj, signature = signature obj\<rparr> = Inr validated \<longrightarrow>
      (\<exists>b. trezor_verifyMessage e obj = Inr b) \<and>
      (\<forall>caught. payloadListener e (trezor_verifyMessagePayload e obj validated) = Inl caught
         \<longrightarrow> trezor_verifyMessage e obj = Inr False)) \<and>
   (hexSequenceValidator e (publicKey lobj) = Inl thrown \<longrightarrow>
      ledger_verifyMessage e lobj = Inl thrown) \<and>
   (hexSequenceValidator e (publicKey lobj) = Inr u \<and>
    messageVerificationObjectValidator e
      \<lparr>message = message lobj, signature = signature lobj\<rparr> = Inl thrown \<longrightarrow>
      ledger_verifyMessage e lobj = Inl thrown) \<and>
   (hexSequenceValidator e (publicKey lobj) = Inr u \<and>
    messageVerificationObjectValidator e
      \<lparr>message = message lobj, signature = signature lobj\<rparr> = Inr validated \<longrightarrow>
      ledger_verifyMessage e lobj =
        verifyMessageSignature e
          (hexSequenceNormalizer e (publicKey lobj) None)
          (message validated)
          (hexSequenceNormalizer e (signature validated) None))"
  by (auto simp: trezor_verifyMessage_def ledger_verifyMessage_def split: sum.splits)

lemma demo_accepts_exampleAddress:
  "demo_addressValidator ''0x00000000000000000000000000000000000000ab'' = Inr ()"
  by (simp add: demo_addressValidator_def isHexSequence_def toLowerCase_example
      stripPrefix_def isHexDigit_def)

lemma demo_signature_validation:
  "demo_messageVerificationObjectValidator \<lparr>message = ''hi'', signature = ''0xaabb1b''\<rparr> =
     Inr \<lparr>message = ''hi'', signature = ''0xaabb1b''\<rparr>"
  "demo_messageVerificationObjectValidator \<lparr>message = ''hi'', signature = ''0xqabb1b''\<rparr> =
     Inl (Error ''InvalidEncoding: signature'')"
  by (simp_all add: demo_messageVerificationObjectValidator_def isHexSequence_def
      toLowerCase_def stripPrefix_def isHexDigit_def)

lemma demo_publicKey_validation:
  "demo_hexSequenceValidator ''0x04ab'' = Inr ()"
  by (simp add: demo_hexSequenceValidator_def isHexSequence_def toLowerCase_def
      stripPrefix_def isHexDigit_def)

text \<open>
  C3 fails where validation fails. With the address and message of a triple that
  verifies, changing the first signature digit \<open>a\<close> (0x61) to \<open>q\<close> (0x71, one bit
  flipped) makes both \<open>verifyMessage\<close> functions throw the validator's error.
\<close>

theorem verifyMessage_throws_on_invalid_signature:
  "trezor_verifyMessage demo
     \<lparr>message = ''hi'', signature = ''0xaabb1b'',
      address = ''0x00000000000000000000000000000000000000ab''\<rparr> = Inr True \<and>
   trezor_verifyMessage demo
     \<lparr>message = ''hi'', signature = ''0xqabb1b'',
      address = ''0x00000000000000000000000000000000000000ab''\<rparr> =
     Inl (Error ''InvalidEncoding: signature'') \<and>
   ledger_verifyMessage demo
     \<lparr>message = ''hi'', signature = ''0xqabb1b'', publicKey = ''0x04ab''\<rparr> =
     Inl (Error ''InvalidEncoding: signature'')"
  by (simp add: trezor_verifyMessage_def ledger_verifyMessage_def demo_fields
      demo_accepts_exampleAddress demo_signature_validation demo_publicKey_validation
      trezor_verifyMessagePayload_def demo_payloadListener_def getProperty_Cons
      demo_hexSequenceNormalizer_def toLowerCase_def stripPrefix_def)

theorem verifyMessage_failure_handling_witness:
  "trezor_verifyMessage demo
     \<lparr>message = ''hi'', signature = ''0xqabb1b'',
      address = ''0x00000000000000000000000000000000000000ab''\<rparr> =
     Inl (Error ''InvalidEncoding: signature'') \<and>
   trezor_verifyMessage demo_failing
     \<lparr>message = ''hi'', signature = ''0xaabb1b'',
      address = ''0x00000000000000000000000000000000000000ab''\<rparr> = Inr False \<and>
   ledger_verifyMessage demo
     \<lparr>message = ''hi'', signature = ''0xaabb1b'', publicKey = ''0x04ab''\<rparr> = Inr True"
proof -
  let ?good = "\<lparr>message = ''hi'', signature = ''0xaabb1b'',
      address = ''0x00000000000000000000000000000000000000ab''\<rparr>"
  let ?flipped = "\<lparr>message = ''hi'', signature = ''0xqabb1b'',
      address = ''0x00000000000000000000000000000000000000ab''\<rparr>"
  let ?lgood = "\<lparr>message = ''hi'', signature = ''0xaabb1b'', publicKey = ''0x04ab''\<rparr>"
  have failing_fields:
    "addressValidator demo_failing = demo_addressValidator"
    "messageVerificationObjectValidator demo_failing = demo_messageVerificationObjectValidator"
    by (simp_all add: demo_failing_def demo_def)
  have address_ok: "addressValidator demo (address ?flipped) = Inr ()"
    "addressValidator demo_failing (address ?good) = Inr ()"
    by (simp_all add: demo_fields failing_fields demo_accepts_exampleAddress)
  have rejected: "messageVerificationObjectValidator demo
      \<lparr>message = message ?flipped, signature = signature ?flipped\<rparr> =
      Inl (Error ''InvalidEncoding: signature'')"
    by (simp add: demo_fields demo_signature_validation)
  have accepted: "messageVerificationObjectValidator demo_failing
      \<lparr>message = message ?good, signature = signature ?good\<rparr> =
      Inr \<lparr>message = ''hi'', signature = ''0xaabb1b''\<rparr>"
    "messageVerificationObjectValidator demo
      \<lparr>message = message ?lgood, signature = signature ?lgood\<rparr> =
      Inr \<lparr>message = ''hi'', signature = ''0xaabb1b''\<rparr>"
    by (simp_all add: demo_fields failing_fields demo_signature_validation)
  have service_fails: "payloadListener demo_failing p = Inl (Error ''boom'')" for p
    by (simp add: demo_failing_def demo_def)
  have key_ok: "hexSequenceValidator demo (publicKey ?lgood) = Inr ()"
    by (simp add: demo_fields demo_publicKey_validation)
  have thrown: "trezor_verifyMessage demo ?flipped = Inl (Error ''InvalidEncoding: signature'')"
    using verifyMessage_failure_handling
      [of demo ?flipped "Error ''InvalidEncoding: signature''" "()"]
      address_ok rejected
    by blast
  have false: "trezor_verifyMessage demo_failing ?good = Inr False"
    using verifyMessage_failure_handling
      [of demo_failing ?good _ "()" "\<lparr>message = ''hi'', signature = ''0xaabb1b''\<rparr>"]
      address_ok accepted service_fails
    by blast
  have ledger: "ledger_verifyMessage demo ?lgood =
      verifyMessageSignature demo
        (hexSequenceNormalizer demo (publicKey ?lgood) None)
        (message \<lparr>message = ''hi'', signature = ''0xaabb1b''\<rparr>)
        (hexSequenceNormalizer demo (signature \<lparr>message = ''hi'', signature = ''0xaabb1b''\<rparr>)
           None)"
    using verifyMessage_failure_handling
      [of demo _ _ "()" "\<lparr>message = ''hi'', signature = ''0xaabb1b''\<rparr>" ?lgood]
      key_ok accepted
    by blast
  have normal: "demo_hexSequenceNormalizer ''0xaabb1b'' None = ''0xaabb1b''"
    by (simp add: demo_hexSequenceNormalizer_def toLowerCase_def stripPrefix_def
        toEvenHex_def withPrefix_def)
  show ?thesis
    unfolding thrown false ledger
    by (simp add: demo_fields normal)
qed

section \<open>Evaluating the signing pipeline in the concrete environment\<close>

lemma hexDigitValue_digits:
  "hexDigitValue CHR ''0'' = Some 0" "hexDigitValue CHR ''1'' = Some 1"
  "hexDigitValue CHR ''2'' = Some 2" "hexDigitValue CHR ''3'' = Some 3"
  "hexDigitValue CHR ''4'' = Some 4" "hexDigitValue CHR ''5'' = Some 5"
  "hexDigitValue CHR ''6'' = Some 6" "hexDigitValue CHR ''7'' = Some 7"
  "hexDigitValue CHR ''8'' = Some 8" "hexDigitValue CHR ''9'' = Some 9"
  "hexDigitValue CHR ''a'' = Some 10" "hexDigitValue CHR ''b'' = Some 11"
  "hexDigitValue CHR ''c'' = Some 12" "hexDigitValue CHR ''d'' = Some 13"
  "hexDigitValue CHR ''e'' = Some 14" "hexDigitValue CHR ''f'' = Some 15"
  "hexDigitValue CHR ''x'' = None"
  by (simp_all add: hexDigitValue_def)

lemma demo_decodes_prefixed:
  "demo_Buffer_from (demo_hexSequenceNormalizer ''aa'' None) ''hex'' = []"
  "demo_Buffer_from (demo_hexSequenceNormalizer ''bb'' None) ''hex'' = []"
  "demo_Buffer_from (demo_hexSequenceNormalizer ''25'' None) ''hex'' = []"
  "demo_Buffer_from (demo_hexSequenceNormalizer ''0'' None) ''hex'' = []"
  by (simp_all add: demo_Buffer_from_def demo_hexSequenceNormalizer_def toLowerCase_def
      stripPrefix_def toEvenHex_def withPrefix_def hexDigitValue_digits)

lemma ledger_unsignedTransaction_example:
  "ledger_unsignedTransaction demo (transactionObject exampleRequest) =
     \<lparr>txData =
        [(''gasPrice'', JString ''0x3b9aca00''), (''gasLimit'', JString ''0x5208''),
         (''nonce'', JString ''0x00''), (''value'', JString ''0x00''),
         (''data'', JString ''0x''), (''r'', JString ''0x00''), (''s'', JString ''0x00''),
         (''v'', JString ''0x01''),
         (''to'', JString ''0x00000000000000000000000000000000000000ab'')],
      txOpts = [(''chain'', JNumber 1)]\<rparr>"
  by (simp add: ledger_unsignedTransaction_def demo_fields exampleRequest_fields
      toString16_small demo_normalized_example demo_prefixed_example demo_address_example)

lemma hexEncode_Cons:
  "hexEncode (b # bs) =
     ''0123456789abcdef'' ! (b div 16) # ''0123456789abcdef'' ! (b mod 16) # hexEncode bs"
  "hexEncode [] = []"
  by (simp_all add: hexEncode_def)

lemma earlier_unsignedTransaction_eq:
  "earlier_unsignedTransaction e t = ledger_unsignedTransaction e t"
  by (simp add: earlier_unsignedTransaction_def ledger_unsignedTransaction_def
      String_toString_def)

lemma trezor_unsignedTransaction_example:
  "trezor_unsignedTransaction demo (transactionObject exampleRequest) =
     \<lparr>txData =
        [(''gasPrice'', JString ''0x3b9aca00''), (''gasLimit'', JString ''0x3b9aca00''),
         (''nonce'', JString ''0x00''), (''value'', JString ''0x00''),
         (''data'', JString ''0x''), (''r'', JString ''0x00''), (''s'', JString ''0x00''),
         (''v'', JString ''0x01'')],
      txOpts = [(''chain'', JNumber 1)]\<rparr>"
  by (simp add: trezor_unsignedTransaction_def demo_fields exampleRequest_fields
      toString16_small demo_normalized_example demo_prefixed_example)

lemma toString16_recovery: "toString16 37 = ''25''" "toString16 27 = ''1b''"
  by (simp_all add: toString16.simps [of 37] toString16.simps [of 27] toString16_digit)

lemma ledger_signedTransaction_example:
  "ledger_signedTransaction demo (ledger_unsignedTransaction demo (transactionObject exampleRequest))
     \<lparr>tx_r = ''aa'', tx_s = ''bb'', tx_v = ''25''\<rparr> =
     \<lparr>txData =
        [(''gasPrice'', JString ''0x3b9aca00''), (''gasLimit'', JString ''0x5208''),
         (''nonce'', JString ''0x00''), (''value'', JString ''0x00''),
         (''data'', JString ''0x''), (''r'', JBuffer []), (''s'', JBuffer []),
         (''v'', JBuffer []),
         (''to'', JString ''0x00000000000000000000000000000000000000ab'')],
      txOpts = [(''chain'', JNumber 1)]\<rparr>"
  by (simp add: ledger_signedTransaction_def ledger_unsignedTransaction_example setField_def
      demo_fields demo_decodes_prefixed)

lemma earlier_signedTransaction_example:
  "earlier_signedTransaction demo (ledger_unsignedTransaction demo (transactionObject exampleRequest))
     \<lparr>tx_r = ''aa'', tx_s = ''bb'', tx_v = ''25''\<rparr> =
     \<lparr>txData =
        [(''gasPrice'', JString ''0x3b9aca00''), (''gasLimit'', JString ''0x5208''),
         (''nonce'', JString ''0x00''), (''value'', JString ''0x00''),
         (''data'', JString ''0x''), (''r'', JString ''0xaa''), (''s'', JString ''0xbb''),
         (''v'', JString ''0x25''),
         (''to'', JString ''0x00000000000000000000000000000000000000ab'')],
      txOpts = [(''chain'', JNumber 1)]\<rparr>"
  by (simp add: earlier_signedTransaction_def ledger_unsignedTransaction_example setField_def
      demo_fields demo_hexSequenceNormalizer_def toLowerCase_def stripPrefix_def toEvenHex_def
      withPrefix_def)

lemma trezor_signedTransaction_example:
  "trezor_signedTransaction demo (trezor_unsignedTransaction demo (transactionObject exampleRequest))
     \<lparr>trezor_r = ''aa'', trezor_s = ''bb'', trezor_v = 37,
      trezor_signature = Some ''aabb1b'', trezor_success = False\<rparr> =
     \<lparr>txData =
        [(''gasPrice'', JString ''0x3b9aca00''), (''gasLimit'', JString ''0x3b9aca00''),
         (''nonce'', JString ''0x00''), (''value'', JString ''0x00''),
         (''data'', JString ''0x''), (''r'', JBuffer []), (''s'', JBuffer []),
         (''v'', JBuffer [])],
      txOpts = [(''chain'', JNumber 1)]\<rparr>"
  by (simp add: trezor_signedTransaction_def trezor_unsignedTransaction_example setField_def
      demo_fields bigNumber_toString16_def toString16_recovery demo_decodes_prefixed)

lemma ledger_serialized_example:
  "demo_Buffer_toString
     (demo_serialize
        \<lparr>txData =
           [(''gasPrice'', JString ''0x3b9aca00''), (''gasLimit'', JString ''0x5208''),
            (''nonce'', JString ''0x00''), (''value'', JString ''0x00''),
            (''data'', JString ''0x''), (''r'', JBuffer []), (''s'', JBuffer []),
            (''v'', JBuffer []),
            (''to'', JString ''0x00000000000000000000000000000000000000ab'')],
         txOpts = opts\<rparr>) ''hex'' =
   ''e380843b9aca008252089400000000000000000000000000000000000000ab8080808080''"
  by (simp add: demo_Buffer_toString_def demo_serialize_def txField_def getProperty_Cons
      stripPrefix_def toEvenHex_def hexDigitValue_digits rlpList_def rlpItem_def rlpLength_def
      hexEncode_Cons)

lemma earlier_serialized_example:
  "demo_Buffer_toString
     (demo_serialize
        \<lparr>txData =
           [(''gasPrice'', JString ''0x3b9aca00''), (''gasLimit'', JString ''0x5208''),
            (''nonce'', JString ''0x00''), (''value'', JString ''0x00''),
            (''data'', JString ''0x''), (''r'', JString ''0xaa''), (''s'', JString ''0xbb''),
            (''v'', JString ''0x25''),
            (''to'', JString ''0x00000000000000000000000000000000000000ab'')],
         txOpts = opts\<rparr>) ''hex'' =
   ''e580843b9aca008252089400000000000000000000000000000000000000ab80802581aa81bb''"
  by (simp add: demo_Buffer_toString_def demo_serialize_def txField_def getProperty_Cons
      stripPrefix_def toEvenHex_def hexDigitValue_digits rlpList_def rlpItem_def rlpLength_def
      hexEncode_Cons)

lemma unsigned_serialized_example:
  "demo_Buffer_toString
     (demo_serialize
        \<lparr>txData =
           [(''gasPrice'', JString ''0x3b9aca00''), (''gasLimit'', JString ''0x5208''),
            (''nonce'', JString ''0x00''), (''value'', JString ''0x00''),
            (''data'', JString ''0x''), (''r'', JString ''0x00''), (''s'', JString ''0x00''),
            (''v'', JString ''0x01''),
            (''to'', JString ''0x00000000000000000000000000000000000000ab'')],
         txOpts = opts\<rparr>) ''hex'' =
   ''e380843b9aca008252089400000000000000000000000000000000000000ab8080018080''"
  by (simp add: demo_Buffer_toString_def demo_serialize_def txField_def getProperty_Cons
      stripPrefix_def toEvenHex_def hexDigitValue_digits rlpList_def rlpItem_def rlpLength_def
      hexEncode_Cons)

lemma trezor_serialized_example:
  "demo_Buffer_toString
     (demo_serialize
        \<lparr>txData =
           [(''gasPrice'', JString ''0x3b9aca00''), (''gasLimit'', JString ''0x3b9aca00''),
            (''nonce'', JString ''0x00''), (''value'', JString ''0x00''),
            (''data'', JString ''0x''), (''r'', JBuffer []), (''s'', JBuffer []),
            (''v'', JBuffer [])],
         txOpts = opts\<rparr>) ''hex'' =
   ''d180843b9aca00843b9aca00808080808080''"
  by (simp add: demo_Buffer_toString_def demo_serialize_def txField_def getProperty_Cons
      getProperty_Nil stripPrefix_def toEvenHex_def hexDigitValue_digits rlpList_def rlpItem_def
      rlpLength_def hexEncode_Cons)

lemma demo_prefixes_output:
  "demo_hexSequenceNormalizer
     ''e380843b9aca008252089400000000000000000000000000000000000000ab8080808080'' None =
   ''0xe380843b9aca008252089400000000000000000000000000000000000000ab8080808080''"
  "demo_hexSequenceNormalizer
     ''e580843b9aca008252089400000000000000000000000000000000000000ab80802581aa81bb'' None =
   ''0xe580843b9aca008252089400000000000000000000000000000000000000ab80802581aa81bb''"
  "demo_hexSequenceNormalizer ''d180843b9aca00843b9aca00808080808080'' None =
   ''0xd180843b9aca00843b9aca00808080808080''"
  "demo_hexSequenceNormalizer ''aabb1b'' None = ''0xaabb1b''"
  by (simp_all add: demo_hexSequenceNormalizer_def toLowerCase_def stripPrefix_def
      toEvenHex_def withPrefix_def)

lemma demo_ledger_answers:
  "signTransaction demo_ledger p h = Inr \<lparr>tx_r = ''aa'', tx_s = ''bb'', tx_v = ''25''\<rparr>"
  "signPersonalMessage demo_ledger p h = Inr \<lparr>msg_r = ''aa'', msg_s = ''bb'', msg_v = 27\<rparr>"
  by (simp_all add: demo_ledger_def)

lemma ledger_signTransaction_example:
  "ledger_signTransaction demo exampleRequest =
     Inr (Some ''0xe380843b9aca008252089400000000000000000000000000000000000000ab8080808080'')"
  by (simp add: ledger_signTransaction_def ledger_signTransaction_try_def demo_fields
      demo_validates_exampleRequest exampleRequest_fields(2) demo_accepts_examplePath
      demo_ledger_answers ledger_signedTransaction_example ledger_serialized_example
      demo_prefixes_output)

lemma earlier_signTransaction_example:
  "earlier_signTransaction demo exampleRequest =
     Inr (Some ''0xe580843b9aca008252089400000000000000000000000000000000000000ab80802581aa81bb'')"
  by (simp add: earlier_signTransaction_def earlier_signTransaction_try_def demo_fields
      demo_validates_exampleRequest exampleRequest_fields(2) demo_accepts_examplePath
      demo_ledger_answers earlier_unsignedTransaction_eq earlier_signedTransaction_example
      earlier_serialized_example demo_prefixes_output)

lemma trezor_payload_chain_id:
  "getProperty (trezor_modifiedPayloadObject e t path) ''chain_id'' = Some (JNumber (chainId t))"
  by (simp add: trezor_modifiedPayloadObject_def getProperty_assignFrom getProperty_setProperty
      getProperty_Cons getProperty_Nil split: option.splits)

lemma trezor_payload_signature:
  "getProperty (trezor_modifiedPayloadObject demo t path) ''signature'' = None"
  by (simp add: trezor_modifiedPayloadObject_def getProperty_assignFrom getProperty_setProperty
      getProperty_Cons getProperty_Nil demo_fields split: option.splits)

lemma demo_trezor_answers:
  "demo_payloadListener
     (trezor_modifiedPayloadObject demo (transactionObject exampleRequest) path) =
   Inr \<lparr>trezor_r = ''aa'', trezor_s = ''bb'', trezor_v = 37,
        trezor_signature = Some ''aabb1b'', trezor_success = False\<rparr>"
  by (simp add: demo_payloadListener_def trezor_payload_chain_id trezor_payload_signature
      exampleRequest_fields(1))

lemma trezor_signTransaction_example:
  "trezor_signTransaction demo exampleRequest =
     Inr ''0xd180843b9aca00843b9aca00808080808080''"
  by (simp add: trezor_signTransaction_def demo_fields demo_validates_exampleRequest
      exampleRequest_fields(2) demo_accepts_examplePath demo_trezor_answers
      trezor_signedTransaction_example trezor_serialized_example demo_prefixes_output)

section \<open>The gas limit of the Trezor transaction\<close>

text \<open>
  C1, at the request of the spec's example (gas price \<open>0x3b9aca00\<close>, gas limit
  \<open>0x5208\<close>): the Trezor \<open>signTransaction\<close> fills the \<open>gasLimit\<close> slot of its unsigned
  transaction from the request's gas price, and the transaction it returns carries
  \<open>3b9aca00\<close> twice, as gas price and as gas limit. The payload it sends to the device
  and the Ledger \<open>signTransaction\<close> take the request's gas limit.
\<close>

theorem trezor_gasLimit_slot_holds_gasPrice:
  "getProperty (txData (trezor_unsignedTransaction demo (transactionObject exampleRequest)))
     ''gasLimit'' = Some (JString ''0x3b9aca00'') \<and>
   trezor_signTransaction demo exampleRequest =
     Inr ''0xd180843b9aca00843b9aca00808080808080'' \<and>
   getProperty (trezor_modifiedPayloadObject demo (transactionObject exampleRequest)
       (derivationPath exampleRequest)) ''gas_limit'' = Some (JString ''5208'') \<and>
   getProperty (txData (ledger_unsignedTransaction demo (transactionObject exampleRequest)))
     ''gasLimit'' = Some (JString ''0x5208'')"
  by (simp add: trezor_unsignedTransaction_gasLimit_slot ledger_unsignedTransaction_txData
      trezor_modifiedPayloadObject_def getProperty_assignFrom getProperty_Cons getProperty_Nil
      demo_fields exampleRequest_fields demo_normalized_example demo_prefixed_example
      trezor_signTransaction_example)

section \<open>The two Ledger variants\<close>

text \<open>
  C10, at the request of the spec's example with a device that answers \<open>r = aa\<close>,
  \<open>s = bb\<close>, \<open>v = 25\<close>. The two variants build the same unsigned transaction and send
  the device the same serialization. The earlier variant assigns the prefixed strings
  \<open>0xaa\<close>, \<open>0xbb\<close>, \<open>0x25\<close>, and the returned transaction ends in \<open>25 81aa
  81bb\<close>. The TypeScript variant assigns \<open>Buffer.from\<close> of those strings with the
  encoding \<open>'hex'\<close>, which decodes the prefixed strings to empty buffers, and the
  returned transaction ends in three empty fields.
\<close>

theorem ledger_variants_differ_after_signing:
  "earlier_unsignedTransaction demo (transactionObject exampleRequest) =
     ledger_unsignedTransaction demo (transactionObject exampleRequest) \<and>
   earlier_signTransaction demo exampleRequest =
     Inr (Some ''0xe580843b9aca008252089400000000000000000000000000000000000000ab80802581aa81bb'') \<and>
   ledger_signTransaction demo exampleRequest =
     Inr (Some ''0xe380843b9aca008252089400000000000000000000000000000000000000ab8080808080'')"
  by (simp add: earlier_unsignedTransaction_eq earlier_signTransaction_example
      ledger_signTransaction_example)

section \<open>The recovery value\<close>









section \<open>The shape of the returned strings\<close>










end
